theory Spec2Isabelle
  imports Complex_Main "HOL-Library.Sublist"
begin

section \<open>Retry policy classifier and backoff scheduler (trpc.fetchers.retrier.ts)\<close>

subsection \<open>Profiles\<close>

text \<open>
  A retry profile, as the entries of \<^verbatim>\<open>RETRY_PROFILES\<close>. JavaScript numbers are
  modelled as reals; the attempt budget is a natural number.
\<close>

record RetryProfile =
  baseDelayMs :: real
  maxDelayMs :: real
  jitterFactor :: real
  maxAttempts :: nat

definition RETRY_PROFILES_network :: RetryProfile where
  "RETRY_PROFILES_network =
     \<lparr>baseDelayMs = 500, maxDelayMs = 8000, jitterFactor = 0.25, maxAttempts = 3\<rparr>"

definition RETRY_PROFILES_server :: RetryProfile where
  "RETRY_PROFILES_server =
     \<lparr>baseDelayMs = 1000, maxDelayMs = 10000, jitterFactor = 0.5, maxAttempts = 4\<rparr>"

subsection \<open>Error values\<close>

text \<open>
  The value caught by the scheduler is either an instance of \<^verbatim>\<open>TRPCFetcherError\<close>
  (with its \<^verbatim>\<open>category\<close>, its optional \<^verbatim>\<open>httpStatus\<close> and its \<^verbatim>\<open>message\<close>) or
  anything else. The class itself is declared outside the files at hand; only the three
  fields that the classifier reads are kept.
\<close>

datatype error_value =
    TRPCFetcherError (category: string) (httpStatus: "nat option") (message: string)
  | OtherError string

subsection \<open>Message patterns of the 429 denylist\<close>

text \<open>
  The denylist tests are either plain strings (\<^verbatim>\<open>message.includes(test)\<close>) or regular
  expressions with the \<^verbatim>\<open>i\<close> flag (\<^verbatim>\<open>test.test(message)\<close>). The regular expressions
  of the source only use literals, alternation, sequencing and \<^verbatim>\<open>\d+\<close>.
\<close>

datatype rx = Lit string | DigitsPlus | Seq rx rx | Alt rx rx

datatype deny_test = TestString string | TestRegExp rx

definition lowerChar :: "char \<Rightarrow> char" where
  "lowerChar c =
     (let n = (of_char c :: nat) in if 65 \<le> n \<and> n \<le> 90 then char_of (n + 32) else c)"

definition isDigit :: "char \<Rightarrow> bool" where
  "isDigit c = (let n = (of_char c :: nat) in 48 \<le> n \<and> n \<le> 57)"

fun tails :: "'a list \<Rightarrow> 'a list list" where
  "tails [] = [[]]"
| "tails (x # xs) = (x # xs) # tails xs"

fun startsWith :: "string \<Rightarrow> string \<Rightarrow> bool" where
  "startsWith s [] = True"
| "startsWith [] (c # w) = False"
| "startsWith (d # s) (c # w) = (d = c \<and> startsWith s w)"

definition includesStr :: "string \<Rightarrow> string \<Rightarrow> bool" where
  "includesStr s w = list_ex (\<lambda>t. startsWith t w) (tails s)"

text \<open>All remainders of \<open>s\<close> after one or more leading digits.\<close>

fun digitsRest :: "string \<Rightarrow> string list" where
  "digitsRest [] = []"
| "digitsRest (c # s) = (if isDigit c then s # digitsRest s else [])"

text \<open>
  \<open>rxRest r s\<close> lists the remainders of \<open>s\<close> after each way in which a prefix of \<open>s\<close>
  matches \<open>r\<close>, ignoring the case of ASCII letters.
\<close>

fun rxRest :: "rx \<Rightarrow> string \<Rightarrow> string list" where
  "rxRest (Lit w) s =
     (if length w \<le> length s \<and> map lowerChar (take (length w) s) = map lowerChar w
      then [drop (length w) s] else [])"
| "rxRest DigitsPlus s = digitsRest s"
| "rxRest (Seq a b) s = concat (map (rxRest b) (rxRest a s))"
| "rxRest (Alt a b) s = rxRest a s @ rxRest b s"

definition rxTest :: "rx \<Rightarrow> string \<Rightarrow> bool" where
  "rxTest r s = list_ex (\<lambda>t. rxRest r t \<noteq> []) (tails s)"

definition RETRY_DENYLIST_429 :: "(deny_test \<times> string) list" where
  "RETRY_DENYLIST_429 =
     [(TestRegExp (Alt (Lit ''quota'') (Lit ''billing'')), ''quota/billing''),
      (TestRegExp (Alt (Lit ''request too large'')
         (Seq (Lit ''limit '') (Seq DigitsPlus (Seq (Lit '', requested '') DigitsPlus)))),
       ''request-too-large''),
      (TestString ''rate limit of 0 input tokens per minute'',
       ''zero-rate-limit (no model access)''),
      (TestString ''Insufficient balance or no resource package'',
       ''insufficient-balance (Z.ai)'')]"

fun denyTestMatches :: "string \<Rightarrow> deny_test \<Rightarrow> bool" where
  "denyTestMatches msg (TestString w) = includesStr msg w"
| "denyTestMatches msg (TestRegExp r) = rxTest r msg"

subsection \<open>The classifier\<close>

definition selectRetryProfile :: "error_value \<Rightarrow> RetryProfile option" where
  "selectRetryProfile error =
     (case error of
        OtherError _ \<Rightarrow> None
      | TRPCFetcherError cat status msg \<Rightarrow>
          if cat = ''connection'' then Some RETRY_PROFILES_network
          else if cat = ''http'' \<and> status \<noteq> None \<and> status \<noteq> Some 0 then
            (if status = Some 429 then
               (case find (\<lambda>(test, label). denyTestMatches msg test) RETRY_DENYLIST_429 of
                  Some denyMatch \<Rightarrow> None
                | None \<Rightarrow> Some RETRY_PROFILES_server)
             else if the status \<in> set [503, 502] then Some RETRY_PROFILES_server
             else None)
          else None)"

subsection \<open>The scheduler\<close>

record RetryAttempt =
  attempt :: nat
  attemptMax :: nat
  delayMs :: real
  causeHttp :: "nat option"
  causeConn :: "string option"

text \<open>\<^verbatim>\<open>Math.round\<close>: the nearest integer, a tie going up.\<close>

definition Math_round :: "real \<Rightarrow> real" where
  "Math_round x = of_int \<lfloor>x + 1 / 2\<rfloor>"

text \<open>
  The delay computed in iteration \<open>attemptNumber\<close> (before the counter is incremented),
  with \<open>rnd\<close> the value returned by \<^verbatim>\<open>Math.random()\<close>.
\<close>

definition backoffDelay :: "RetryProfile \<Rightarrow> nat \<Rightarrow> real \<Rightarrow> real" where
  "backoffDelay rp attemptNumber rnd =
     (let exponentialDelay = baseDelayMs rp * 2 ^ (attemptNumber - 1);
          delay = min exponentialDelay (maxDelayMs rp)
      in if jitterFactor rp > 0 then
           (let jitterRange = delay * jitterFactor rp;
                randomJitter = (rnd * 2 - 1) * jitterRange
            in max 1 (Math_round (delay + randomJitter)))
         else delay)"

definition retryInfo :: "error_value \<Rightarrow> RetryProfile \<Rightarrow> nat \<Rightarrow> real \<Rightarrow> RetryAttempt" where
  "retryInfo error rp attemptNumber d =
     \<lparr>attempt = attemptNumber, attemptMax = maxAttempts rp, delayMs = d,
      causeHttp = (case error of TRPCFetcherError _ st _ \<Rightarrow> st | OtherError _ \<Rightarrow> None),
      causeConn = (case error of TRPCFetcherError c _ _ \<Rightarrow> Some c | OtherError _ \<Rightarrow> None)\<rparr>"

text \<open>
  What a run of the scheduler does: how often the operation was invoked, the
  notifications passed to \<^verbatim>\<open>onRetry\<close> in order, and how the promise settled
  (\<open>Inl\<close>: rejected with that error, \<open>Inr\<close>: resolved).
\<close>

record 'a retry_run =
  invocations :: nat
  retries :: "RetryAttempt list"
  settled :: "error_value + 'a"

text \<open>
  The \<^verbatim>\<open>while (true)\<close> loop, from the iteration with counter \<open>attemptNumber\<close> on.
  The environment of the run is given by four functions of the iteration:
  \<open>operationFn n\<close> is the outcome of the \<open>n\<close>-th invocation of the operation,
  \<open>aborted n\<close> is \<^verbatim>\<open>abortSignal.aborted\<close> as read when that failure is caught,
  \<open>random n\<close> is the value of \<^verbatim>\<open>Math.random()\<close> there, and \<open>delayAborted n\<close> is
  what \<^verbatim>\<open>abortableDelay\<close> resolves to (true: the wait was cut short by the signal).
\<close>

function retryLoop ::
  "(nat \<Rightarrow> error_value + 'a) \<Rightarrow> (nat \<Rightarrow> bool) \<Rightarrow> (nat \<Rightarrow> real) \<Rightarrow> (nat \<Rightarrow> bool) \<Rightarrow> nat
   \<Rightarrow> 'a retry_run" where
  "retryLoop operationFn aborted random delayAborted attemptNumber =
     (case operationFn attemptNumber of
        Inr result \<Rightarrow> \<lparr>invocations = 1, retries = [], settled = Inr result\<rparr>
      | Inl error \<Rightarrow>
          if aborted attemptNumber then \<lparr>invocations = 1, retries = [], settled = Inl error\<rparr>
          else
            (case selectRetryProfile error of
               None \<Rightarrow> \<lparr>invocations = 1, retries = [], settled = Inl error\<rparr>
             | Some rp \<Rightarrow>
                 if attemptNumber \<ge> maxAttempts rp
                 then \<lparr>invocations = 1, retries = [], settled = Inl error\<rparr>
                 else
                   (let d = backoffDelay rp attemptNumber (random attemptNumber);
                        info = retryInfo error rp (attemptNumber + 1) d
                    in if delayAborted attemptNumber
                       then \<lparr>invocations = 1, retries = [info], settled = Inl error\<rparr>
                       else
                         (let rest = retryLoop operationFn aborted random delayAborted
                                       (attemptNumber + 1)
                          in \<lparr>invocations = 1 + invocations rest,
                              retries = info # retries rest,
                              settled = settled rest\<rparr>))))"
  by pat_completeness auto
termination
  by (relation "measure (\<lambda>(operationFn, aborted, random, delayAborted, n). 4 - n)")
     (auto simp: selectRetryProfile_def RETRY_PROFILES_network_def RETRY_PROFILES_server_def
        split: error_value.splits if_splits option.splits)

declare retryLoop.simps [simp del]

definition createRetryablePromise ::
  "(nat \<Rightarrow> error_value + 'a) \<Rightarrow> (nat \<Rightarrow> bool) \<Rightarrow> (nat \<Rightarrow> real) \<Rightarrow> (nat \<Rightarrow> bool)
   \<Rightarrow> 'a retry_run" where
  "createRetryablePromise operationFn aborted random delayAborted =
     retryLoop operationFn aborted random delayAborted 1"

text \<open>
  Iteration \<open>n\<close> of the loop ends in a further attempt: the operation failed, the signal
  was not set, the error is retryable with attempts left, and the wait ran to its end.
\<close>

definition retryContinues ::
  "(nat \<Rightarrow> error_value + 'a) \<Rightarrow> (nat \<Rightarrow> bool) \<Rightarrow> (nat \<Rightarrow> bool) \<Rightarrow> nat \<Rightarrow> bool" where
  "retryContinues operationFn aborted delayAborted n =
     (case operationFn n of
        Inr x \<Rightarrow> False
      | Inl error \<Rightarrow>
          \<not> aborted n \<and>
          (case selectRetryProfile error of
             None \<Rightarrow> False
           | Some rp \<Rightarrow> n < maxAttempts rp \<and> \<not> delayAborted n))"


subsection \<open>The denylist in the words of the spec\<close>

text \<open>
  The words matched by a pattern, and the permanent conditions that the spec lists for
  HTTP 429: quota or billing exhausted, request too large for the model, a rate limit of
  zero (no access to the model), and insufficient prepaid balance. \<open>occursIn L s\<close>: some
  word of \<open>L\<close> occurs in \<open>s\<close>; \<open>anyCase w\<close>: the word \<open>w\<close> in any mix of upper and lower
  case.
\<close>

fun rxLang :: "rx \<Rightarrow> string set" where
  "rxLang (Lit w) = {u. map lowerChar u = map lowerChar w}"
| "rxLang DigitsPlus = {d. d \<noteq> [] \<and> (\<forall>c \<in> set d. isDigit c)}"
| "rxLang (Seq a b) = {u @ v | u v. u \<in> rxLang a \<and> v \<in> rxLang b}"
| "rxLang (Alt a b) = rxLang a \<union> rxLang b"

definition occursIn :: "string set \<Rightarrow> string \<Rightarrow> bool" where
  "occursIn L s = (\<exists>pre u post. u \<in> L \<and> s = pre @ u @ post)"

definition anyCase :: "string \<Rightarrow> string set" where
  "anyCase w = {u. map lowerChar u = map lowerChar w}"

definition digits :: "string set" where
  "digits = {d. d \<noteq> [] \<and> (\<forall>c \<in> set d. isDigit c)}"

definition permanent429 :: "string \<Rightarrow> bool" where
  "permanent429 msg =
     (occursIn (anyCase ''quota'') msg \<or> occursIn (anyCase ''billing'') msg
      \<or> occursIn (anyCase ''request too large'') msg
      \<or> occursIn {a @ m @ b @ k | a m b k.
            a \<in> anyCase ''limit '' \<and> m \<in> digits \<and> b \<in> anyCase '', requested '' \<and> k \<in> digits} msg
      \<or> occursIn {''rate limit of 0 input tokens per minute''} msg
      \<or> occursIn {''Insufficient balance or no resource package''} msg)"



section \<open>Parameter overlay (llms.parameters) and the transport model configuration\<close>

text \<open>
  JavaScript values as far as the parameter values need them. A parameter object is a
  map from parameter identifier to value; a key may be present with value
  \<^verbatim>\<open>undefined\<close>, and reading an absent key gives \<^verbatim>\<open>undefined\<close>.
\<close>

datatype jsval = VUndefined | VNull | VBool bool | VNum real | VStr string

fun truthy :: "jsval \<Rightarrow> bool" where
  "truthy VUndefined = False"
| "truthy VNull = False"
| "truthy (VBool b) = b"
| "truthy (VNum x) = (x \<noteq> 0)"
| "truthy (VStr s) = (s \<noteq> [])"

type_synonym DModelParameterValues = "string \<rightharpoonup> jsval"

definition LLMImplicitParamersRuntimeFallback :: DModelParameterValues where
  "LLMImplicitParamersRuntimeFallback =
     [''llmResponseTokens'' \<mapsto> VNum 8192, ''llmTemperature'' \<mapsto> VNum 0.5]"

text \<open>Spreading \<^verbatim>\<open>...obj\<close> where \<^verbatim>\<open>obj\<close> may be \<^verbatim>\<open>undefined\<close>.\<close>

definition spread :: "DModelParameterValues option \<Rightarrow> DModelParameterValues" where
  "spread obj = (case obj of None \<Rightarrow> Map.empty | Some m \<Rightarrow> m)"

definition getAllModelParameterValues ::
  "DModelParameterValues option \<Rightarrow> DModelParameterValues option \<Rightarrow> DModelParameterValues" where
  "getAllModelParameterValues initialParameters userParameters =
     LLMImplicitParamersRuntimeFallback ++ spread initialParameters ++ spread userParameters"

text \<open>Reading a property of an object.\<close>

definition getProp :: "DModelParameterValues \<Rightarrow> string \<Rightarrow> jsval" where
  "getProp obj k = (case obj k of None \<Rightarrow> VUndefined | Some v \<Rightarrow> v)"

text \<open>
  The interface tags that \<^verbatim>\<open>aixCreateModelFromLLMOptions\<close> looks for are imported
  constants; they are kept by name, every other tag being an \<open>LLM_IF_Other\<close>.
\<close>

datatype llm_interface =
    LLM_IF_HOTFIX_NoTemperature | LLM_IF_OAI_Responses | LLM_IF_Outputs_Audio
  | LLM_IF_Outputs_Image | LLM_IF_Outputs_NoText | LLM_IF_Other string

record WebGeolocation =
  city :: string
  country :: string
  region :: string
  timezone :: string

record UserGeolocation =
  geoCity :: "string option"
  geoCountry :: "string option"
  geoRegion :: "string option"
  geoTimezone :: string

text \<open>
  The transport-facing model configuration. An optional property is \<open>None\<close> when the
  object literal leaves it out.
\<close>

record AixAPI_Model =
  id_model :: jsval
  acceptsOutputs :: "string list"
  temperature :: "jsval option"
  maxTokens :: "jsval option"
  topP :: "jsval option"
  forceNoStream :: "jsval option"
  vndAntThinkingBudget :: "jsval option"
  vndGeminiShowThoughts :: "jsval option"
  vndGeminiThinkingBudget :: "jsval option"
  vndOaiResponsesAPI :: "bool option"
  vndOaiReasoningEffort :: "jsval option"
  vndOaiRestoreMarkdown :: "jsval option"
  vndOaiWebSearchContext :: "jsval option"
  vndPerplexityDateFilter :: "jsval option"
  vndPerplexitySearchMode :: "jsval option"
  userGeolocation :: "UserGeolocation option"
  vndXaiSearchMode :: "jsval option"
  vndXaiSearchSources :: "jsval option"
  vndXaiSearchDateFilter :: "jsval option"

text \<open>
  Values thrown and caught: an instance of \<^verbatim>\<open>Error\<close> with its name, its message and
  its cause, or some other value. A \<^verbatim>\<open>DOMException\<close> is an \<^verbatim>\<open>Error\<close> whose name is the
  one given to its constructor.
\<close>

datatype cause = DOMExceptionCause string | OtherCause

datatype js_error =
    JsError (errName: string) (errMessage: string) (errCause: "cause option")
  | NonError string

definition new_Error :: "string \<Rightarrow> js_error" where
  "new_Error msg = JsError ''Error'' msg None"

definition new_DOMException :: "string \<Rightarrow> string \<Rightarrow> js_error" where
  "new_DOMException msg name = JsError name msg None"

definition whenTruthy :: "jsval \<Rightarrow> jsval option" where
  "whenTruthy v = (if truthy v then Some v else None)"

definition whenDefined :: "jsval \<Rightarrow> jsval option" where
  "whenDefined v = (if v \<noteq> VUndefined then Some v else None)"

definition nonEmpty :: "string \<Rightarrow> string option" where
  "nonEmpty s = (if s \<noteq> [] then Some s else None)"

text \<open>
  \<open>JSON_stringify\<close> renders the options for the error message and
  \<open>webGeolocationCached\<close> is the cached position, if any; both come from outside.
\<close>

text \<open>
  The object that \<^verbatim>\<open>aixCreateModelFromLLMOptions\<close> destructures: the options overlaid
  with a copy of the override from which \<^verbatim>\<open>llmRef\<close> has been deleted.
\<close>

definition llmOptionsWithOverride ::
  "DModelParameterValues \<Rightarrow> DModelParameterValues option \<Rightarrow> DModelParameterValues" where
  "llmOptionsWithOverride llmOptions llmOptionsOverride0 =
     (let llmOptionsOverride = map_option (\<lambda>m. m(''llmRef'' := None)) llmOptionsOverride0
      in llmOptions ++ spread llmOptionsOverride)"

definition aixCreateModelFromLLMOptions ::
  "(DModelParameterValues \<Rightarrow> string) \<Rightarrow> WebGeolocation option \<Rightarrow>
   llm_interface list \<Rightarrow> DModelParameterValues \<Rightarrow> DModelParameterValues option \<Rightarrow> string
   \<Rightarrow> js_error + AixAPI_Model" where
  "aixCreateModelFromLLMOptions JSON_stringify webGeolocationCached
       llmInterfaces llmOptions llmOptionsOverride0 debugLlmId =
     (let merged = llmOptionsWithOverride llmOptions llmOptionsOverride0;
          llmRef = getProp merged ''llmRef'';
          llmTemperature = getProp merged ''llmTemperature''
      in if \<not> truthy llmRef then
           Inl (new_Error (''AIX: Error in configuration for model '' @ debugLlmId
                  @ '' (missing ref, temperature): '' @ JSON_stringify llmOptions))
         else
           (let hotfixOmitTemperature = (LLM_IF_HOTFIX_NoTemperature \<in> set llmInterfaces);
                geo =
                  (if truthy (getProp merged ''llmVndOaiWebSearchGeolocation'') then
                     (case webGeolocationCached of
                        Some g \<Rightarrow>
                          Some \<lparr>geoCity = nonEmpty (city g), geoCountry = nonEmpty (country g),
                                geoRegion = nonEmpty (region g), geoTimezone = timezone g\<rparr>
                      | None \<Rightarrow> None)
                   else None)
            in Inr
              \<lparr>id_model = llmRef,
               acceptsOutputs =
                 (if LLM_IF_Outputs_NoText \<notin> set llmInterfaces then [''text''] else [])
                 @ (if LLM_IF_Outputs_Audio \<in> set llmInterfaces then [''audio''] else [])
                 @ (if LLM_IF_Outputs_Image \<in> set llmInterfaces then [''image''] else []),
               temperature =
                 (if hotfixOmitTemperature then Some VNull else whenDefined llmTemperature),
               maxTokens = whenTruthy (getProp merged ''llmResponseTokens''),
               topP = whenDefined (getProp merged ''llmTopP''),
               forceNoStream = whenTruthy (getProp merged ''llmForceNoStream''),
               vndAntThinkingBudget = whenDefined (getProp merged ''llmVndAntThinkingBudget''),
               vndGeminiShowThoughts = whenTruthy (getProp merged ''llmVndGeminiShowThoughts''),
               vndGeminiThinkingBudget =
                 whenDefined (getProp merged ''llmVndGeminiThinkingBudget''),
               vndOaiResponsesAPI =
                 (if LLM_IF_OAI_Responses \<in> set llmInterfaces then Some True else None),
               vndOaiReasoningEffort = whenTruthy (getProp merged ''llmVndOaiReasoningEffort''),
               vndOaiRestoreMarkdown = whenTruthy (getProp merged ''llmVndOaiRestoreMarkdown''),
               vndOaiWebSearchContext = whenTruthy (getProp merged ''llmVndOaiWebSearchContext''),
               vndPerplexityDateFilter =
                 whenTruthy (getProp merged ''llmVndPerplexityDateFilter''),
               vndPerplexitySearchMode =
                 whenTruthy (getProp merged ''llmVndPerplexitySearchMode''),
               userGeolocation = geo,
               vndXaiSearchMode = whenTruthy (getProp merged ''llmVndXaiSearchMode''),
               vndXaiSearchSources = whenTruthy (getProp merged ''llmVndXaiSearchSources''),
               vndXaiSearchDateFilter =
                 whenTruthy (getProp merged ''llmVndXaiSearchDateFilter'')\<rparr>))"


text \<open>
  Two readings used to state properties: the temperature of the configuration that was
  built, if one was, and the model reference as the layers below the per-call override
  give it (user overrides over initial parameters; the implicit fallback has none).
\<close>

definition configTemperature :: "js_error + AixAPI_Model \<Rightarrow> jsval option" where
  "configTemperature r = (case r of Inl e \<Rightarrow> None | Inr m \<Rightarrow> temperature m)"

definition layeredRef ::
  "DModelParameterValues option \<Rightarrow> DModelParameterValues option \<Rightarrow> jsval" where
  "layeredRef ini usr =
     (case spread usr ''llmRef'' of Some v \<Rightarrow> v
      | None \<Rightarrow> (case spread ini ''llmRef'' of Some v \<Rightarrow> v | None \<Rightarrow> VUndefined))"

text \<open>
  The parameter overlay in the words of the spec: the value of a parameter is that of the
  highest layer that defines it, the layers being listed from high to low. For every
  parameter but \<^verbatim>\<open>llmRef\<close> they are the per-call override, the user overrides, the
  model's initial parameters and the implicit runtime fallback; for \<^verbatim>\<open>llmRef\<close> the
  per-call override is not among them.
\<close>

fun highestLayer :: "DModelParameterValues list \<Rightarrow> string \<Rightarrow> jsval" where
  "highestLayer [] p = VUndefined"
| "highestLayer (layer # lower) p =
     (case layer p of Some v \<Rightarrow> v | None \<Rightarrow> highestLayer lower p)"

definition resolvedParameter ::
  "DModelParameterValues option \<Rightarrow> DModelParameterValues option \<Rightarrow>
   DModelParameterValues option \<Rightarrow> string \<Rightarrow> jsval" where
  "resolvedParameter ini usr ov p =
     highestLayer
       ((if p = ''llmRef'' then [] else [spread ov])
        @ [spread usr, spread ini, LLMImplicitParamersRuntimeFallback]) p"

section \<open>Content fragments and accumulators (aix.client.ts)\<close>

text \<open>
  A fragment carries its kind (\<^verbatim>\<open>ft\<close>) and a part tagged by \<^verbatim>\<open>pt\<close>. Of the parts,
  only what the client reads is kept: the text, the error text, and the identifier and
  invocation of a tool invocation.
\<close>

datatype invocation = FunctionCall string | OtherInvocation

datatype fragment_part =
    TextPart string
  | ErrorPart string
  | ToolInvocationPart string "invocation option"
  | AnnotationsPart
  | MaPart
  | PhPart
  | ReferencePart
  | ImageRefPart
  | ToolResponsePart
  | PtSentinel

datatype fragment_kind = FtContent | FtVoid

datatype fragment = Fragment (ft: fragment_kind) (part: fragment_part)

text \<open>
  Modelled from the spec: the helpers \<^verbatim>\<open>isContentFragment\<close>, \<^verbatim>\<open>isErrorPart\<close> and
  \<^verbatim>\<open>createErrorContentFragment\<close> of the fragments module are not among the files at
  hand. The spec speaks of content fragments as a tagged union with an error variant, and
  of error fragments that carry a message.
\<close>

definition isContentFragment :: "fragment \<Rightarrow> bool" where
  "isContentFragment f = (ft f = FtContent)"

fun isErrorPart :: "fragment_part \<Rightarrow> bool" where
  "isErrorPart (ErrorPart e) = True"
| "isErrorPart _ = False"

definition createErrorContentFragment :: "string \<Rightarrow> fragment" where
  "createErrorContentFragment e = Fragment FtContent (ErrorPart e)"

datatype stop_reason = ClientAbort | OtherStopReason string

record 'lg AixChatGenerateContent_LL =
  fragments :: "fragment list"
  genMetricsLg :: "'lg option"
  genModelName :: "string option"
  genTokenStopReason :: "stop_reason option"

record 'md DMessageGenerator =
  mgt :: string
  name :: string
  aix_vId :: string
  aix_mId :: string
  metrics :: "'md option"
  tokenStopReason :: "stop_reason option"

record 'md AixChatGenerateText_Simple =
  textOf :: "string option"
  generator :: "'md DMessageGenerator"
  isDone :: bool

record 'md AixChatGenerateContent_DMessage =
  msgFragments :: "fragment list"
  msgGenerator :: "'md DMessageGenerator"
  pendingIncomplete :: bool

subsection \<open>Down-casting the accumulator\<close>

text \<open>
  The part of \<^verbatim>\<open>_llToText\<close> and \<^verbatim>\<open>_llToDMessage\<close> that copies the generator pieces;
  \<open>lgToMd\<close> stands for \<^verbatim>\<open>metricsChatGenerateLgToMd\<close>.
\<close>

definition copyGenerator ::
  "('lg \<Rightarrow> 'md) \<Rightarrow> 'lg AixChatGenerateContent_LL \<Rightarrow> 'md DMessageGenerator
   \<Rightarrow> 'md DMessageGenerator" where
  "copyGenerator lgToMd src g =
     (let g1 = (case genMetricsLg src of Some m \<Rightarrow> g\<lparr>metrics := Some (lgToMd m)\<rparr> | None \<Rightarrow> g);
          g2 = (case genModelName src of
                  Some n \<Rightarrow> if n \<noteq> [] then g1\<lparr>name := n\<rparr> else g1
                | None \<Rightarrow> g1)
      in (case genTokenStopReason src of
            Some r \<Rightarrow> g2\<lparr>tokenStopReason := Some r\<rparr>
          | None \<Rightarrow> g2))"

definition newline :: string where
  "newline = [CHR 0x0A]"

text \<open>The loop of \<^verbatim>\<open>_llToText\<close> over the fragments, \<open>t\<close> being \<^verbatim>\<open>dest.text\<close> so far.\<close>

fun llToText_fragments :: "fragment list \<Rightarrow> string \<Rightarrow> js_error + string" where
  "llToText_fragments [] t = Inr t"
| "llToText_fragments (f # fs) t =
     (case part f of
        TextPart s \<Rightarrow> llToText_fragments fs (t @ s)
      | ErrorPart e \<Rightarrow> llToText_fragments fs (t @ (if t \<noteq> [] then newline else []) @ e)
      | ToolInvocationPart tid invo \<Rightarrow>
          Inl (new_Error (''AIX: Unexpected tool invocation ''
                 @ (case invo of Some (FunctionCall n) \<Rightarrow> n | _ \<Rightarrow> tid)
                 @ '' in the Text response.''))
      | _ \<Rightarrow> llToText_fragments fs t)"

definition llToText ::
  "('lg \<Rightarrow> 'md) \<Rightarrow> 'lg AixChatGenerateContent_LL \<Rightarrow> 'md AixChatGenerateText_Simple
   \<Rightarrow> js_error + 'md AixChatGenerateText_Simple" where
  "llToText lgToMd src dest =
     (let dest1 = dest\<lparr>generator := copyGenerator lgToMd src (generator dest)\<rparr>
      in if fragments src \<noteq> [] then
           (case llToText_fragments (fragments src) [] of
              Inl e \<Rightarrow> Inl e
            | Inr t \<Rightarrow> Inr (dest1\<lparr>textOf := Some t\<rparr>))
         else Inr dest1)"

definition llToDMessage ::
  "('lg \<Rightarrow> 'md) \<Rightarrow> 'lg AixChatGenerateContent_LL \<Rightarrow> 'md AixChatGenerateContent_DMessage
   \<Rightarrow> 'md AixChatGenerateContent_DMessage" where
  "llToDMessage lgToMd src dest =
     (let dest1 = (if fragments src \<noteq> [] then dest\<lparr>msgFragments := fragments src\<rparr> else dest)
      in dest1\<lparr>msgGenerator := copyGenerator lgToMd src (msgGenerator dest1)\<rparr>)"

text \<open>
  \<^verbatim>\<open>_updateGeneratorCostsInPlace\<close>: \<open>computeCosts\<close> stands for
  \<^verbatim>\<open>metricsComputeChatGenerateCostsMd\<close> on the model's pricing and \<open>assignCosts\<close> for
  \<^verbatim>\<open>Object.assign\<close> of the costs to the metrics. The second component is what is handed
  to the process-wide store (\<open>None\<close>: the store is not called).
\<close>

definition updateGeneratorCostsInPlace ::
  "('md option \<Rightarrow> 'c option) \<Rightarrow> ('md \<Rightarrow> 'c \<Rightarrow> 'md) \<Rightarrow> 'md DMessageGenerator
   \<Rightarrow> 'md DMessageGenerator \<times> 'c option" where
  "updateGeneratorCostsInPlace computeCosts assignCosts g =
     (case computeCosts (metrics g) of
        None \<Rightarrow> (g, None)
      | Some costs \<Rightarrow>
          ((case metrics g of
              Some m \<Rightarrow> g\<lparr>metrics := Some (assignCosts m costs)\<rparr>
            | None \<Rightarrow> g),
           Some costs))"

subsection \<open>Tier 2: the text-only facade, once the low-level call has returned\<close>

fun joinWith :: "string \<Rightarrow> string list \<Rightarrow> string" where
  "joinWith sep [] = []"
| "joinWith sep [x] = x"
| "joinWith sep (x # y # ys) = x @ sep @ joinWith sep (y # ys)"

definition errorTexts :: "fragment list \<Rightarrow> string list" where
  "errorTexts fs =
     map (\<lambda>f. case part f of ErrorPart e \<Rightarrow> e | _ \<Rightarrow> [])
       (filter (\<lambda>f. isContentFragment f \<and> isErrorPart (part f)) fs)"

text \<open>
  The statements of \<^verbatim>\<open>aixChatGenerateText_Simple\<close> that follow the low-level call:
  \<open>ll\<close> is the accumulator it returned, \<open>state\<close> the text state as the streaming
  updates left it (\<^verbatim>\<open>text: null\<close> when there was none), and \<open>aborted\<close> the value of
  \<^verbatim>\<open>abortSignal.aborted\<close> read there.
\<close>

definition aixChatGenerateText_Simple ::
  "('lg \<Rightarrow> 'md) \<Rightarrow> ('md option \<Rightarrow> 'c option) \<Rightarrow> ('md \<Rightarrow> 'c \<Rightarrow> 'md) \<Rightarrow>
   'lg AixChatGenerateContent_LL \<Rightarrow> 'md AixChatGenerateText_Simple \<Rightarrow> bool
   \<Rightarrow> js_error + string" where
  "aixChatGenerateText_Simple lgToMd computeCosts assignCosts ll state aborted =
     (case llToText lgToMd ll (state\<lparr>isDone := True\<rparr>) of
        Inl e \<Rightarrow> Inl e
      | Inr state1 \<Rightarrow>
          (let state2 = state1\<lparr>generator :=
                 fst (updateGeneratorCostsInPlace computeCosts assignCosts (generator state1))\<rparr>
           in if aborted then Inl (new_DOMException ''Stopped.'' ''AbortError'')
              else
                (case textOf state2 of
                   None \<Rightarrow> Inl (new_Error ''AIX: Empty text response.'')
                 | Some t \<Rightarrow>
                     (let errorMessage = joinWith newline (errorTexts (fragments ll))
                      in if errorMessage \<noteq> [] then
                           Inl (new_Error (''AIX: Error in response: '' @ errorMessage))
                         else Inr t))))"


text \<open>
  Readings of a fragment list used to state the outcomes: whether a fragment is a tool
  invocation or an error, and the texts of the text fragments, concatenated in order.
\<close>

fun isToolInvocation :: "fragment \<Rightarrow> bool" where
  "isToolInvocation (Fragment k (ToolInvocationPart tid invo)) = True"
| "isToolInvocation f = False"

fun isErrorFragment :: "fragment \<Rightarrow> bool" where
  "isErrorFragment (Fragment k (ErrorPart e)) = True"
| "isErrorFragment f = False"

fun textOfFragment :: "fragment \<Rightarrow> string" where
  "textOfFragment (Fragment k (TextPart s)) = s"
| "textOfFragment f = []"

definition concatenatedText :: "fragment list \<Rightarrow> string" where
  "concatenatedText fs = concat (map textOfFragment fs)"

subsection \<open>The content reassembler\<close>

text \<open>
  Modelled from the spec: the class \<^verbatim>\<open>ContentReassembler\<close> and the wire particles are
  not among the files at hand. The particles are the spec's: text delta, fragment
  boundary marker, metrics update, model-name update, stop-reason update, in-band error
  and stream-done marker.
\<close>

datatype 'lg particle =
    TextDelta string
  | FragmentBoundary
  | MetricsUpdate 'lg
  | ModelNameUpdate string
  | StopReasonUpdate stop_reason
  | InBandError string
  | StreamDone

datatype reassembler_state = Streaming | Aborted | Excepted | Completed

record 'lg ContentReassembler =
  accumulator :: "'lg AixChatGenerateContent_LL"
  openText :: bool
  machine :: reassembler_state

definition newContentReassembler :: "'lg AixChatGenerateContent_LL \<Rightarrow> 'lg ContentReassembler" where
  "newContentReassembler acc = \<lparr>accumulator = acc, openText = False, machine = Streaming\<rparr>"

text \<open>
  Modelled from the spec: a text delta extends the open text fragment, creating one if
  none is open.
\<close>

fun extendText :: "string \<Rightarrow> fragment list \<Rightarrow> fragment list" where
  "extendText s [] = [Fragment FtContent (TextPart s)]"
| "extendText s [f] =
     (case part f of
        TextPart t \<Rightarrow> [Fragment (ft f) (TextPart (t @ s))]
      | _ \<Rightarrow> [f, Fragment FtContent (TextPart s)])"
| "extendText s (f # g # fs) = f # extendText s (g # fs)"

text \<open>
  Modelled from the spec: one particle is fully applied to the accumulator; a particle
  that is not a text delta closes the open text fragment before it is applied, and an
  in-band error is delivered as an error fragment.
\<close>

fun enqueueWireParticle ::
  "'lg particle \<Rightarrow> 'lg ContentReassembler \<Rightarrow> 'lg ContentReassembler" where
  "enqueueWireParticle (TextDelta s) r =
     (let acc = accumulator r
      in r\<lparr>accumulator := acc\<lparr>fragments :=
              (if openText r then extendText s (fragments acc)
               else fragments acc @ [Fragment FtContent (TextPart s)])\<rparr>,
           openText := True\<rparr>)"
| "enqueueWireParticle FragmentBoundary r = r\<lparr>openText := False\<rparr>"
| "enqueueWireParticle (MetricsUpdate m) r =
     r\<lparr>accumulator := (accumulator r)\<lparr>genMetricsLg := Some m\<rparr>, openText := False\<rparr>"
| "enqueueWireParticle (ModelNameUpdate n) r =
     r\<lparr>accumulator := (accumulator r)\<lparr>genModelName := Some n\<rparr>, openText := False\<rparr>"
| "enqueueWireParticle (StopReasonUpdate sr) r =
     r\<lparr>accumulator := (accumulator r)\<lparr>genTokenStopReason := Some sr\<rparr>, openText := False\<rparr>"
| "enqueueWireParticle (InBandError e) r =
     (let acc = accumulator r
      in r\<lparr>accumulator := acc\<lparr>fragments := fragments acc @ [createErrorContentFragment e]\<rparr>,
           openText := False\<rparr>)"
| "enqueueWireParticle StreamDone r = r\<lparr>openText := False\<rparr>"

text \<open>
  Modelled from the spec: \<^verbatim>\<open>setClientAborted\<close> marks the stop reason as user
  cancellation, keeps the fragments and appends nothing; \<^verbatim>\<open>setClientExcepted\<close> appends
  an error fragment carrying the message to the fragments accumulated so far;
  \<^verbatim>\<open>finalizeAccumulator\<close> seals the open text fragment and completes the state
  machine unless it was aborted or excepted.
\<close>

definition setClientAborted :: "'lg ContentReassembler \<Rightarrow> 'lg ContentReassembler" where
  "setClientAborted r =
     r\<lparr>accumulator := (accumulator r)\<lparr>genTokenStopReason := Some ClientAbort\<rparr>,
       machine := Aborted\<rparr>"

definition setClientExcepted :: "string \<Rightarrow> 'lg ContentReassembler \<Rightarrow> 'lg ContentReassembler" where
  "setClientExcepted errorAsText r =
     (let acc = accumulator r
      in r\<lparr>accumulator :=
             acc\<lparr>fragments := fragments acc @ [createErrorContentFragment errorAsText]\<rparr>,
           openText := False, machine := Excepted\<rparr>)"

definition finalizeAccumulator :: "'lg ContentReassembler \<Rightarrow> 'lg ContentReassembler" where
  "finalizeAccumulator r =
     r\<lparr>openText := False, machine := (if machine r = Streaming then Completed else machine r)\<rparr>"

text \<open>
  Modelled from the spec: \<^verbatim>\<open>withDecimator\<close> lets every call through at throttle level
  0; at a higher level whether the \<open>k\<close>-th call goes through depends on the clock, which
  is the function \<open>tick\<close> here.
\<close>

definition withDecimator :: "nat \<Rightarrow> (nat \<Rightarrow> bool) \<Rightarrow> nat \<Rightarrow> bool" where
  "withDecimator throttle tick k = (throttle = 0 \<or> tick k)"

subsection \<open>Tier 0: the low-level call\<close>

text \<open>
  What the transport does in one call: \<^verbatim>\<open>mutate\<close> rejects, or it yields a stream that
  delivers particles and then either ends or throws.
\<close>

datatype 'lg wire = MutateRejects js_error | Stream "'lg particle list" "js_error option"

text \<open>
  The particles go through the reassembler one by one; after each, the decimated update
  (\<open>send k\<close>: the \<open>k\<close>-th call goes through) passes the accumulator to the callback with
  \<^verbatim>\<open>isDone = false\<close>, unless there is no fragment yet. The first component lists these
  calls.
\<close>

fun reassemble ::
  "(nat \<Rightarrow> bool) option \<Rightarrow> nat \<Rightarrow> 'lg particle list \<Rightarrow> 'lg ContentReassembler
   \<Rightarrow> ('lg AixChatGenerateContent_LL \<times> bool) list \<times> 'lg ContentReassembler" where
  "reassemble sendContentUpdate k [] r = ([], r)"
| "reassemble sendContentUpdate k (p # ps) r =
     (let r1 = enqueueWireParticle p r;
          u = (case sendContentUpdate of
                 None \<Rightarrow> []
               | Some send \<Rightarrow>
                   if send k \<and> fragments (accumulator r1) \<noteq> [] then [(accumulator r1, False)]
                   else []);
          (us, r2) = reassemble sendContentUpdate (k + 1) ps r1
      in (u @ us, r2))"

definition isErrorAbort :: "js_error \<Rightarrow> bool" where
  "isErrorAbort error =
     (case error of
        JsError n msg c \<Rightarrow> n = ''AbortError'' \<or> c = Some (DOMExceptionCause ''AbortError'')
      | NonError v \<Rightarrow> False)"

text \<open>\<^verbatim>\<open>String.prototype.replace\<close> with a string pattern: the first occurrence only.\<close>

fun replaceFirst :: "string \<Rightarrow> string \<Rightarrow> string \<Rightarrow> string" where
  "replaceFirst pat rep [] = (if pat = [] then rep else [])"
| "replaceFirst pat rep (c # s) =
     (if startsWith (c # s) pat then rep @ drop (length pat) (c # s)
      else c # replaceFirst pat rep s)"

text \<open>
  The \<^verbatim>\<open>catch\<close> block: \<open>isUserAbort\<close> is \<^verbatim>\<open>abortSignal.aborted\<close> as read there and
  \<open>presentErrorToHumans\<close> renders the error (an empty string standing for no text).
\<close>

definition onStreamFailure ::
  "(js_error \<Rightarrow> bool \<Rightarrow> bool \<Rightarrow> string) \<Rightarrow> bool \<Rightarrow> js_error \<Rightarrow> 'lg ContentReassembler
   \<Rightarrow> 'lg ContentReassembler" where
  "onStreamFailure presentErrorToHumans isUserAbort error reassembler =
     (if isUserAbort \<or> isErrorAbort error then setClientAborted reassembler
      else
        (let showAsBold = (fragments (accumulator reassembler) \<noteq> []);
             presented = presentErrorToHumans error showAsBold True;
             errorText = replaceFirst ''[TRPCClientError]'' []
                           (if presented \<noteq> [] then presented else ''Unknown error'')
         in setClientExcepted
              (''An unexpected error occurred: '' @ errorText @ '' Please retry.'')
              reassembler))"

record 'lg ll_run =
  updates :: "('lg AixChatGenerateContent_LL \<times> bool) list"
  returned :: "js_error + 'lg AixChatGenerateContent_LL"

text \<open>
  \<^verbatim>\<open>_aixChatGenerateContent_LL\<close>. The callback, when there is one, is given by what its
  last call (\<^verbatim>\<open>isDone = true\<close>) does with the final accumulator: \<open>None\<close> when it returns,
  \<open>Some e\<close> when it throws \<open>e\<close>, which nothing catches. The updates before that run inside
  the reassembler and are recorded only.
\<close>

definition aixChatGenerateContent_LL ::
  "(js_error \<Rightarrow> bool \<Rightarrow> bool \<Rightarrow> string) \<Rightarrow> 'lg wire \<Rightarrow> bool \<Rightarrow> nat \<Rightarrow> (nat \<Rightarrow> bool)
   \<Rightarrow> ('lg AixChatGenerateContent_LL \<Rightarrow> js_error option) option \<Rightarrow> 'lg ll_run" where
  "aixChatGenerateContent_LL presentErrorToHumans transport abortSignal_aborted
       throttleParallelThreads tick onGenerateContentUpdate =
     (let accumulator_LL =
            \<lparr>fragments = [], genMetricsLg = None, genModelName = None,
             genTokenStopReason = None\<rparr>;
          sendContentUpdate =
            (case onGenerateContentUpdate of
               None \<Rightarrow> None
             | Some cb \<Rightarrow> Some (withDecimator throttleParallelThreads tick));
          reassembler = newContentReassembler accumulator_LL;
          (us, r1) =
            (case transport of
               MutateRejects error \<Rightarrow>
                 ([], onStreamFailure presentErrorToHumans abortSignal_aborted error reassembler)
             | Stream particles failure \<Rightarrow>
                 (let (us, r) = reassemble sendContentUpdate 0 particles reassembler
                  in (case failure of
                        None \<Rightarrow> (us, r)
                      | Some error \<Rightarrow>
                          (us, onStreamFailure presentErrorToHumans abortSignal_aborted error r))));
          final = accumulator (finalizeAccumulator r1)
      in (case onGenerateContentUpdate of
            None \<Rightarrow> \<lparr>updates = us, returned = Inr final\<rparr>
          | Some cb \<Rightarrow>
              \<lparr>updates = us @ [(final, True)],
               returned = (case cb final of Some e \<Rightarrow> Inl e | None \<Rightarrow> Inr final)\<rparr>))"


text \<open>
  The failure of a transport behaviour, if it has one, the particles delivered before
  it, and the reassembler as those particles leave it.
\<close>

definition wireFailure :: "'lg wire \<Rightarrow> js_error option" where
  "wireFailure w = (case w of MutateRejects e \<Rightarrow> Some e | Stream ps failure \<Rightarrow> failure)"

definition wireDelivered :: "'lg wire \<Rightarrow> 'lg particle list" where
  "wireDelivered w = (case w of MutateRejects e \<Rightarrow> [] | Stream ps failure \<Rightarrow> ps)"

definition reassembledBefore :: "'lg wire \<Rightarrow> 'lg ContentReassembler" where
  "reassembledBefore w =
     fold enqueueWireParticle (wireDelivered w)
       (newContentReassembler
          \<lparr>fragments = [], genMetricsLg = None, genModelName = None,
           genTokenStopReason = None\<rparr>)"

subsection \<open>Tier 1: the message-level call\<close>

record DLLM =
  llm_id :: string
  vId :: string
  sId :: string
  interfaces :: "llm_interface list"
  initialParameters :: DModelParameterValues
  userParameters :: "DModelParameterValues option"

definition findLLMOrThrow :: "DLLM list \<Rightarrow> string \<Rightarrow> js_error + DLLM" where
  "findLLMOrThrow llms llmId =
     (case find (\<lambda>llm. llm_id llm = llmId) llms of
        None \<Rightarrow> Inl (new_Error (''Large Language Model '' @ llmId @ '' not found''))
      | Some llm \<Rightarrow> Inr llm)"

text \<open>
  The vendor's optional \<^verbatim>\<open>rateLimitChatGenerate\<close> hook, by what awaiting it does in
  this call.
\<close>

datatype rate_limit_hook = NoHook | HookResolves | HookRejects js_error

text \<open>
  The collaborators of one call: \<open>findServiceAccessOrThrow\<close> throws or gives the vendor
  (of which only the hook matters here), \<open>transport\<close> is what the transport does and
  \<open>tick\<close> the clock of the decimator; the others are the imported functions of the same
  names.
\<close>

record ('lg, 'md, 'c) collaborators =
  JSON_stringify :: "DModelParameterValues \<Rightarrow> string"
  webGeolocationCached :: "WebGeolocation option"
  presentErrorToHumans :: "js_error \<Rightarrow> bool \<Rightarrow> bool \<Rightarrow> string"
  metricsChatGenerateLgToMd :: "'lg \<Rightarrow> 'md"
  metricsComputeChatGenerateCostsMd :: "'md option \<Rightarrow> 'c option"
  assignCosts :: "'md \<Rightarrow> 'c \<Rightarrow> 'md"
  findServiceAccessOrThrow :: "string \<Rightarrow> js_error + rate_limit_hook"
  transport :: "'lg wire"
  tick :: "nat \<Rightarrow> bool"

text \<open>
  What an observer of the call sees, in order: the calls of \<^verbatim>\<open>onStreamingUpdate\<close> with
  the message and the \<^verbatim>\<open>isDone\<close> flag, the vendor's rate-limit hook, the call of the
  transport with the model configuration, and the costs handed to the process-wide store.
\<close>

datatype ('md, 'c) event =
    StreamingUpdate "'md AixChatGenerateContent_DMessage" bool
  | RateLimitChatGenerate
  | TransportCall AixAPI_Model
  | MetricsStoreAddChatGenerate 'c

record ('md, 'c) dmessage_run =
  events :: "('md, 'c) event list"
  result :: "js_error + 'md AixChatGenerateContent_DMessage"

text \<open>
  The callback that Tier 1 hands to the low-level call, applied to the updates in order:
  it returns at once when \<^verbatim>\<open>isDone\<close> is set, and otherwise, if the caller gave a
  callback, copies the accumulator into the message and passes it on with \<^verbatim>\<open>false\<close>.
\<close>

fun forwardUpdates ::
  "('lg \<Rightarrow> 'md) \<Rightarrow> bool \<Rightarrow> ('lg AixChatGenerateContent_LL \<times> bool) list \<Rightarrow>
   'md AixChatGenerateContent_DMessage
   \<Rightarrow> ('md, 'c) event list \<times> 'md AixChatGenerateContent_DMessage" where
  "forwardUpdates lgToMd hasCallback [] dMessage = ([], dMessage)"
| "forwardUpdates lgToMd hasCallback ((ll, done) # us) dMessage =
     (if done then forwardUpdates lgToMd hasCallback us dMessage
      else if hasCallback then
        (let d1 = llToDMessage lgToMd ll dMessage;
             (es, d2) = forwardUpdates lgToMd hasCallback us d1
         in (StreamingUpdate d1 False # es, d2))
      else forwardUpdates lgToMd hasCallback us dMessage)"

text \<open>
  \<^verbatim>\<open>aixChatGenerateContent_DMessage\<close>. \<open>abortSignal\<close> is \<open>None\<close> for
  \<^verbatim>\<open>'NON_ABORTABLE'\<close> and otherwise tells whether the signal is set when the low-level
  call reads it; \<open>hasCallback\<close> tells whether \<^verbatim>\<open>onStreamingUpdate\<close> was given. The
  request, the context and the streaming flag only travel to the transport, whose
  behaviour is a collaborator here.
\<close>

definition aixChatGenerateContent_DMessage ::
  "('lg, 'md, 'c) collaborators \<Rightarrow> DLLM list \<Rightarrow> string \<Rightarrow> bool option \<Rightarrow> nat \<Rightarrow>
   DModelParameterValues option \<Rightarrow> bool \<Rightarrow> ('md, 'c) dmessage_run" where
  "aixChatGenerateContent_DMessage co llms llmId abortSignal throttleParallelThreads
       llmOptionsOverride hasCallback =
     (case findLLMOrThrow llms llmId of
        Inl e \<Rightarrow> \<lparr>events = [], result = Inl e\<rparr>
      | Inr llm \<Rightarrow>
     (case findServiceAccessOrThrow co (sId llm) of
        Inl e \<Rightarrow> \<lparr>events = [], result = Inl e\<rparr>
      | Inr hook \<Rightarrow>
     (let llmParameters =
            getAllModelParameterValues (Some (initialParameters llm)) (userParameters llm)
      in
     (case aixCreateModelFromLLMOptions (JSON_stringify co) (webGeolocationCached co)
             (interfaces llm) llmParameters llmOptionsOverride llmId of
        Inl e \<Rightarrow> \<lparr>events = [], result = Inl e\<rparr>
      | Inr aixModel \<Rightarrow>
     (let dMessage =
            \<lparr>msgFragments = [],
             msgGenerator = \<lparr>mgt = ''aix'', name = llmId, aix_vId = vId llm,
                             aix_mId = llm_id llm, metrics = None, tokenStopReason = None\<rparr>,
             pendingIncomplete = True\<rparr>;
          initial = (if hasCallback then [StreamingUpdate dMessage False] else [])
      in
     (case hook of
        HookRejects e \<Rightarrow> \<lparr>events = initial @ [RateLimitChatGenerate], result = Inl e\<rparr>
      | _ \<Rightarrow>
     (let limited = (if hook = NoHook then [] else [RateLimitChatGenerate]);
          aborted = (case abortSignal of None \<Rightarrow> False | Some b \<Rightarrow> b);
          ll = aixChatGenerateContent_LL (presentErrorToHumans co) (transport co) aborted
                 throttleParallelThreads (tick co) (Some (\<lambda>acc. None));
          (streamed, d1) =
            forwardUpdates (metricsChatGenerateLgToMd co) hasCallback (updates ll) dMessage;
          before = initial @ limited @ [TransportCall aixModel] @ streamed
      in
     (case returned ll of
        Inl e \<Rightarrow> \<lparr>events = before, result = Inl e\<rparr>
      | Inr llAccumulator \<Rightarrow>
     (let d2 = llToDMessage (metricsChatGenerateLgToMd co) llAccumulator
                 (d1\<lparr>pendingIncomplete := False\<rparr>);
          (g, costs) = updateGeneratorCostsInPlace (metricsComputeChatGenerateCostsMd co)
                         (assignCosts co) (msgGenerator d2);
          d3 = d2\<lparr>msgGenerator := g\<rparr>
      in \<lparr>events = before
                    @ (case costs of None \<Rightarrow> [] | Some c \<Rightarrow> [MetricsStoreAddChatGenerate c])
                    @ (if hasCallback then [StreamingUpdate d3 True] else []),
          result = Inr d3\<rparr>)))))))))"

text \<open>A notification with \<^verbatim>\<open>isDone = true\<close>.\<close>

fun isDoneUpdate :: "('md, 'c) event \<Rightarrow> bool" where
  "isDoneUpdate (StreamingUpdate m b) = b"
| "isDoneUpdate ev = False"

section \<open>Properties of the retry engine\<close>

subsection \<open>The patterns of the denylist\<close>

lemma list_ex_tails: "list_ex P (tails s) \<longleftrightarrow> (\<exists>pre t. s = pre @ t \<and> P t)"
proof (induction s)
  case Nil
  then show ?case by simp
next
  case (Cons c s)
  show ?case
  proof
    assume "list_ex P (tails (c # s))"
    then consider "P (c # s)" | "list_ex P (tails s)" by auto
    then show "\<exists>pre t. c # s = pre @ t \<and> P t"
    proof cases
      case 1
      then have "c # s = [] @ (c # s) \<and> P (c # s)" by simp
      then show ?thesis by blast
    next
      case 2
      with Cons.IH obtain pre t where "s = pre @ t" "P t" by blast
      then have "c # s = (c # pre) @ t \<and> P t" by simp
      then show ?thesis by blast
    qed
  next
    assume "\<exists>pre t. c # s = pre @ t \<and> P t"
    then obtain pre t where pt: "c # s = pre @ t" "P t" by blast
    show "list_ex P (tails (c # s))"
    proof (cases pre)
      case Nil
      with pt have "t = c # s" by simp
      with pt(2) show ?thesis by simp
    next
      case (Cons d pre')
      with pt have "s = pre' @ t" by simp
      with pt(2) Cons.IH show ?thesis by auto
    qed
  qed
qed

lemma startsWith_iff: "startsWith s w \<longleftrightarrow> (\<exists>post. s = w @ post)"
  by (induction s w rule: startsWith.induct) auto

lemma includesStr_iff: "includesStr s w \<longleftrightarrow> occursIn {w} s"
  unfolding includesStr_def list_ex_tails startsWith_iff occursIn_def by blast

lemma set_digitsRest:
  "set (digitsRest s) = {t. \<exists>d. s = d @ t \<and> d \<noteq> [] \<and> (\<forall>c \<in> set d. isDigit c)}"
proof (induction s)
  case Nil
  then show ?case by simp
next
  case (Cons c s)
  show ?case
  proof (cases "isDigit c")
    case False
    have "\<And>d t. c # s = d @ t \<Longrightarrow> d \<noteq> [] \<Longrightarrow> \<not> (\<forall>c \<in> set d. isDigit c)"
      using False by (case_tac d) auto
    with False show ?thesis by auto
  next
    case True
    show ?thesis
    proof (intro set_eqI iffI)
      fix t assume "t \<in> set (digitsRest (c # s))"
      with True consider "t = s" | "t \<in> set (digitsRest s)" by auto
      then show "t \<in> {t. \<exists>d. c # s = d @ t \<and> d \<noteq> [] \<and> (\<forall>c \<in> set d. isDigit c)}"
      proof cases
        case 1
        with True have "c # s = [c] @ t \<and> [c] \<noteq> [] \<and> (\<forall>x \<in> set [c]. isDigit x)" by simp
        then show ?thesis by blast
      next
        case 2
        with Cons.IH obtain d where "s = d @ t" "d \<noteq> []" "\<forall>c \<in> set d. isDigit c" by auto
        with True have "c # s = (c # d) @ t \<and> c # d \<noteq> [] \<and> (\<forall>x \<in> set (c # d). isDigit x)"
          by simp
        then show ?thesis by blast
      qed
    next
      fix t assume "t \<in> {t. \<exists>d. c # s = d @ t \<and> d \<noteq> [] \<and> (\<forall>c \<in> set d. isDigit c)}"
      then obtain d where d: "c # s = d @ t" "d \<noteq> []" "\<forall>c \<in> set d. isDigit c" by auto
      then obtain d' where d': "d = c # d'" "s = d' @ t" by (cases d) auto
      show "t \<in> set (digitsRest (c # s))"
      proof (cases "d' = []")
        case True
        with d' \<open>isDigit c\<close> show ?thesis by simp
      next
        case False
        with d d' have "t \<in> {t. \<exists>d. s = d @ t \<and> d \<noteq> [] \<and> (\<forall>c \<in> set d. isDigit c)}" by auto
        with Cons.IH \<open>isDigit c\<close> show ?thesis by simp
      qed
    qed
  qed
qed

lemma lit_prefix:
  "(length w \<le> length s \<and> map lowerChar (take (length w) s) = map lowerChar w \<and> t = drop (length w) s)
   \<longleftrightarrow> (\<exists>u. map lowerChar u = map lowerChar w \<and> s = u @ t)"
proof
  assume a: "length w \<le> length s \<and> map lowerChar (take (length w) s) = map lowerChar w
             \<and> t = drop (length w) s"
  then have "map lowerChar (take (length w) s) = map lowerChar w \<and> s = take (length w) s @ t"
    by simp
  then show "\<exists>u. map lowerChar u = map lowerChar w \<and> s = u @ t" by blast
next
  assume "\<exists>u. map lowerChar u = map lowerChar w \<and> s = u @ t"
  then obtain u where u: "map lowerChar u = map lowerChar w" "s = u @ t" by blast
  from u(1) have "length u = length w" by (metis length_map)
  with u show "length w \<le> length s \<and> map lowerChar (take (length w) s) = map lowerChar w
             \<and> t = drop (length w) s" by simp
qed

lemma set_rxRest: "set (rxRest r s) = {t. \<exists>u \<in> rxLang r. s = u @ t}"
proof (induction r arbitrary: s)
  case (Lit w)
  show ?case using lit_prefix [of w s] by auto
next
  case DigitsPlus
  show ?case by (auto simp: set_digitsRest)
next
  case (Seq a b)
  show ?case
  proof (intro set_eqI iffI)
    fix t assume "t \<in> set (rxRest (Seq a b) s)"
    then obtain m where "m \<in> set (rxRest a s)" "t \<in> set (rxRest b m)" by auto
    with Seq.IH obtain u v where "u \<in> rxLang a" "s = u @ m" "v \<in> rxLang b" "m = v @ t" by auto
    then have "u @ v \<in> rxLang (Seq a b) \<and> s = (u @ v) @ t" by auto
    then show "t \<in> {t. \<exists>u \<in> rxLang (Seq a b). s = u @ t}" by blast
  next
    fix t assume "t \<in> {t. \<exists>u \<in> rxLang (Seq a b). s = u @ t}"
    then obtain u v where uv: "u \<in> rxLang a" "v \<in> rxLang b" "s = (u @ v) @ t" by auto
    then have "v @ t \<in> set (rxRest a s)" using Seq.IH(1) [of s] by auto
    moreover have "t \<in> set (rxRest b (v @ t))" using Seq.IH(2) [of "v @ t"] uv by auto
    ultimately show "t \<in> set (rxRest (Seq a b) s)" by auto
  qed
next
  case (Alt a b)
  then show ?case by auto
qed

lemma rxTest_iff: "rxTest r s \<longleftrightarrow> occursIn (rxLang r) s"
proof -
  have "\<And>t. rxRest r t \<noteq> [] \<longleftrightarrow> (\<exists>u post. u \<in> rxLang r \<and> t = u @ post)"
  proof -
    fix t
    have "rxRest r t \<noteq> [] \<longleftrightarrow> set (rxRest r t) \<noteq> {}" by simp
    also have "\<dots> \<longleftrightarrow> (\<exists>u post. u \<in> rxLang r \<and> t = u @ post)"
      unfolding set_rxRest by auto
    finally show "rxRest r t \<noteq> [] \<longleftrightarrow> (\<exists>u post. u \<in> rxLang r \<and> t = u @ post)" .
  qed
  then show ?thesis
    unfolding rxTest_def list_ex_tails occursIn_def by blast
qed

lemma occursIn_Un: "occursIn (A \<union> B) s \<longleftrightarrow> occursIn A s \<or> occursIn B s"
  unfolding occursIn_def by blast

lemma denylist_permanent429:
  "find (\<lambda>(test, label). denyTestMatches msg test) RETRY_DENYLIST_429 = None
   \<longleftrightarrow> \<not> permanent429 msg"
proof -
  have seq: "rxLang (Seq (Lit ''limit '') (Seq DigitsPlus (Seq (Lit '', requested '') DigitsPlus)))
      = {a @ m @ b @ k | a m b k.
            a \<in> anyCase ''limit '' \<and> m \<in> digits \<and> b \<in> anyCase '', requested '' \<and> k \<in> digits}"
    unfolding rxLang.simps anyCase_def digits_def by blast
  have lit: "\<And>w. rxLang (Lit w) = anyCase w" by (simp add: anyCase_def)
  have alt: "\<And>a b. rxLang (Alt a b) = rxLang a \<union> rxLang b" by simp
  have "find (\<lambda>(test, label). denyTestMatches msg test) RETRY_DENYLIST_429 = None
    \<longleftrightarrow> \<not> (rxTest (Alt (Lit ''quota'') (Lit ''billing'')) msg
           \<or> rxTest (Alt (Lit ''request too large'')
                 (Seq (Lit ''limit '') (Seq DigitsPlus (Seq (Lit '', requested '') DigitsPlus)))) msg
           \<or> includesStr msg ''rate limit of 0 input tokens per minute''
           \<or> includesStr msg ''Insufficient balance or no resource package'')"
    by (simp add: RETRY_DENYLIST_429_def)
  also have "\<dots> \<longleftrightarrow> \<not> permanent429 msg"
    unfolding rxTest_iff includesStr_iff alt occursIn_Un seq lit permanent429_def by blast
  finally show ?thesis .
qed


text \<open>
  Claim C3. \<^verbatim>\<open>selectRetryProfile\<close> is a function of the error value alone: a
  connection-category error gets the network profile (base 500 ms, cap 8000 ms, jitter
  25 percent, 3 attempts); HTTP 429 is not retryable when its message shows one of the
  permanent conditions of the denylist and gets the server profile (base 1000 ms, cap
  10000 ms, jitter 50 percent, 4 attempts) otherwise; HTTP 502 and 503 get the server
  profile; every other error value, fetcher error or not, is not retryable.
\<close>

theorem selectRetryProfile_classification:
  "selectRetryProfile error =
     (case error of
        OtherError v \<Rightarrow> None
      | TRPCFetcherError cat status msg \<Rightarrow>
          if cat = ''connection'' then
            Some \<lparr>baseDelayMs = 500, maxDelayMs = 8000, jitterFactor = 25 / 100, maxAttempts = 3\<rparr>
          else if cat = ''http'' \<and> status = Some 429 then
            (if permanent429 msg then None
             else Some \<lparr>baseDelayMs = 1000, maxDelayMs = 10000, jitterFactor = 50 / 100,
                        maxAttempts = 4\<rparr>)
          else if cat = ''http'' \<and> (status = Some 502 \<or> status = Some 503) then
            Some \<lparr>baseDelayMs = 1000, maxDelayMs = 10000, jitterFactor = 50 / 100,
                  maxAttempts = 4\<rparr>
          else None)"
proof (cases error)
  case (OtherError v)
  then show ?thesis by (simp add: selectRetryProfile_def)
next
  case (TRPCFetcherError cat status msg)
  show ?thesis
  proof (cases "find (\<lambda>(test, label). denyTestMatches msg test) RETRY_DENYLIST_429")
    case None
    with denylist_permanent429 [of msg] have "\<not> permanent429 msg" by simp
    with None TRPCFetcherError show ?thesis
      by (auto simp: selectRetryProfile_def RETRY_PROFILES_network_def RETRY_PROFILES_server_def)
  next
    case (Some m)
    with denylist_permanent429 [of msg] have "permanent429 msg" by simp
    with Some TRPCFetcherError show ?thesis
      by (auto simp: selectRetryProfile_def RETRY_PROFILES_network_def RETRY_PROFILES_server_def)
  qed
qed

theorem selectRetryProfile_classification_witness:
  "selectRetryProfile (TRPCFetcherError ''http'' (Some 429) ''Rate limit reached, slow down'')
     = Some \<lparr>baseDelayMs = 1000, maxDelayMs = 10000, jitterFactor = 50 / 100, maxAttempts = 4\<rparr>
   \<and> \<not> permanent429 ''Rate limit reached, slow down''
   \<and> permanent429 ''You exceeded your current Quota''"
proof -
  have 1: "selectRetryProfile (TRPCFetcherError ''http'' (Some 429) ''Rate limit reached, slow down'')
            = Some RETRY_PROFILES_server"
    by code_simp
  have 2: "selectRetryProfile (TRPCFetcherError ''http'' (Some 429) ''You exceeded your current Quota'')
            = None"
    by code_simp
  from 1 selectRetryProfile_classification
         [of "TRPCFetcherError ''http'' (Some 429) ''Rate limit reached, slow down''"]
  have a: "\<not> permanent429 ''Rate limit reached, slow down''"
    by (simp split: if_splits)
  from 2 selectRetryProfile_classification
         [of "TRPCFetcherError ''http'' (Some 429) ''You exceeded your current Quota''"]
  have b: "permanent429 ''You exceeded your current Quota''"
    by (simp split: if_splits)
  from 1 a b show ?thesis by (simp add: RETRY_PROFILES_server_def)
qed


subsection \<open>The loop, one iteration at a time\<close>

lemma selectRetryProfile_range:
  "selectRetryProfile e = Some rp \<Longrightarrow> rp = RETRY_PROFILES_network \<or> rp = RETRY_PROFILES_server"
  by (auto simp: selectRetryProfile_def split: error_value.splits if_splits option.splits)

lemma retryLoop_resolves:
  "operationFn n = Inr x \<Longrightarrow>
   retryLoop operationFn aborted random delayAborted n =
     \<lparr>invocations = 1, retries = [], settled = Inr x\<rparr>"
  by (subst retryLoop.simps) simp

lemma retryLoop_aborted:
  "operationFn n = Inl e \<Longrightarrow> aborted n \<Longrightarrow>
   retryLoop operationFn aborted random delayAborted n =
     \<lparr>invocations = 1, retries = [], settled = Inl e\<rparr>"
  by (subst retryLoop.simps) simp

lemma retryLoop_not_retryable:
  "operationFn n = Inl e \<Longrightarrow> selectRetryProfile e = None \<Longrightarrow>
   retryLoop operationFn aborted random delayAborted n =
     \<lparr>invocations = 1, retries = [], settled = Inl e\<rparr>"
  by (subst retryLoop.simps) simp

lemma retryLoop_exhausted:
  "operationFn n = Inl e \<Longrightarrow> selectRetryProfile e = Some rp \<Longrightarrow> maxAttempts rp \<le> n \<Longrightarrow>
   retryLoop operationFn aborted random delayAborted n =
     \<lparr>invocations = 1, retries = [], settled = Inl e\<rparr>"
  by (subst retryLoop.simps) simp

lemma retryLoop_wait_aborted:
  "operationFn n = Inl e \<Longrightarrow> \<not> aborted n \<Longrightarrow> selectRetryProfile e = Some rp \<Longrightarrow>
   n < maxAttempts rp \<Longrightarrow> delayAborted n \<Longrightarrow>
   retryLoop operationFn aborted random delayAborted n =
     \<lparr>invocations = 1,
      retries = [retryInfo e rp (n + 1) (backoffDelay rp n (random n))],
      settled = Inl e\<rparr>"
  by (subst retryLoop.simps) (simp add: Let_def)

lemma retryLoop_retry:
  "operationFn n = Inl e \<Longrightarrow> \<not> aborted n \<Longrightarrow> selectRetryProfile e = Some rp \<Longrightarrow>
   n < maxAttempts rp \<Longrightarrow> \<not> delayAborted n \<Longrightarrow>
   retryLoop operationFn aborted random delayAborted n =
     \<lparr>invocations = 1 + invocations (retryLoop operationFn aborted random delayAborted (n + 1)),
      retries = retryInfo e rp (n + 1) (backoffDelay rp n (random n))
                # retries (retryLoop operationFn aborted random delayAborted (n + 1)),
      settled = settled (retryLoop operationFn aborted random delayAborted (n + 1))\<rparr>"
  by (subst retryLoop.simps) (simp add: Let_def)

lemma retryLoop_continues:
  assumes "retryContinues operationFn aborted delayAborted n"
  shows "invocations (retryLoop operationFn aborted random delayAborted n)
           = 1 + invocations (retryLoop operationFn aborted random delayAborted (n + 1))
       \<and> settled (retryLoop operationFn aborted random delayAborted n)
           = settled (retryLoop operationFn aborted random delayAborted (n + 1))
       \<and> length (retries (retryLoop operationFn aborted random delayAborted n))
           = 1 + length (retries (retryLoop operationFn aborted random delayAborted (n + 1)))"
proof -
  from assms obtain e rp where
    "operationFn n = Inl e" "\<not> aborted n" "selectRetryProfile e = Some rp"
    "n < maxAttempts rp" "\<not> delayAborted n"
    by (auto simp: retryContinues_def split: sum.splits option.splits)
  then show ?thesis by (simp add: retryLoop_retry)
qed

lemma retryLoop_skip:
  assumes "\<forall>m. n \<le> m \<and> m < k \<longrightarrow> retryContinues operationFn aborted delayAborted m"
      and "n \<le> k"
  shows "invocations (retryLoop operationFn aborted random delayAborted n)
           = (k - n) + invocations (retryLoop operationFn aborted random delayAborted k)
       \<and> settled (retryLoop operationFn aborted random delayAborted n)
           = settled (retryLoop operationFn aborted random delayAborted k)
       \<and> length (retries (retryLoop operationFn aborted random delayAborted n))
           = (k - n) + length (retries (retryLoop operationFn aborted random delayAborted k))"
  using assms
proof (induction "k - n" arbitrary: n)
  case 0
  then show ?case by simp
next
  case (Suc d)
  then have c: "retryContinues operationFn aborted delayAborted n" and lt: "n < k"
    by auto
  have ih: "invocations (retryLoop operationFn aborted random delayAborted (n + 1))
           = (k - (n + 1)) + invocations (retryLoop operationFn aborted random delayAborted k)
       \<and> settled (retryLoop operationFn aborted random delayAborted (n + 1))
           = settled (retryLoop operationFn aborted random delayAborted k)
       \<and> length (retries (retryLoop operationFn aborted random delayAborted (n + 1)))
           = (k - (n + 1)) + length (retries (retryLoop operationFn aborted random delayAborted k))"
    using Suc.hyps(1) [of "n + 1"] Suc.hyps(2) Suc.prems lt by auto
  have split: "k - n = 1 + (k - (n + 1))" using lt by simp
  from retryLoop_continues [OF c, of random] ih show ?case
    unfolding split by simp
qed


text \<open>
  Claim C2. When every invocation of the operation fails with an error that the
  classifier assigns to profile \<open>P\<close> and the cancellation signal never fires, the
  operation is invoked exactly \<open>maxAttempts P\<close> times, that is \<open>maxAttempts P - 1\<close>
  retries are announced, and the promise rejects with the error of the last attempt.
\<close>

theorem createRetryablePromise_exhausts_budget:
  assumes fails: "\<forall>n. \<exists>e. operationFn n = Inl e \<and> selectRetryProfile e = Some P"
      and quiet: "\<forall>n. \<not> aborted n \<and> \<not> delayAborted n"
  shows "invocations (createRetryablePromise operationFn aborted random delayAborted)
           = maxAttempts P
       \<and> length (retries (createRetryablePromise operationFn aborted random delayAborted))
           = maxAttempts P - 1
       \<and> settled (createRetryablePromise operationFn aborted random delayAborted)
           = operationFn (maxAttempts P)
       \<and> isl (operationFn (maxAttempts P))"
proof -
  from fails obtain e0 where "selectRetryProfile e0 = Some P" by blast
  then have pos: "1 \<le> maxAttempts P"
    by (auto dest!: selectRetryProfile_range
        simp: RETRY_PROFILES_network_def RETRY_PROFILES_server_def)
  have cont: "\<forall>m. 1 \<le> m \<and> m < maxAttempts P \<longrightarrow> retryContinues operationFn aborted delayAborted m"
  proof (intro allI impI)
    fix m assume m: "1 \<le> m \<and> m < maxAttempts P"
    from fails obtain e where "operationFn m = Inl e" "selectRetryProfile e = Some P" by blast
    with m quiet show "retryContinues operationFn aborted delayAborted m"
      by (simp add: retryContinues_def)
  qed
  from fails obtain e where e: "operationFn (maxAttempts P) = Inl e" "selectRetryProfile e = Some P"
    by blast
  have last: "retryLoop operationFn aborted random delayAborted (maxAttempts P)
                = \<lparr>invocations = 1, retries = [], settled = Inl e\<rparr>"
    using e by (simp add: retryLoop_exhausted)
  from retryLoop_skip [OF cont pos, of random] last e pos show ?thesis
    by (simp add: createRetryablePromise_def)
qed


theorem createRetryablePromise_exhausts_budget_witness:
  "(\<forall>n. \<exists>e. (\<lambda>n. Inl (TRPCFetcherError ''connection'' None ''fetch failed'')) n
                 = (Inl e :: error_value + unit)
             \<and> selectRetryProfile e = Some RETRY_PROFILES_network)
   \<and> invocations (createRetryablePromise
        (\<lambda>n. Inl (TRPCFetcherError ''connection'' None ''fetch failed'') :: error_value + unit)
        (\<lambda>n. False) (\<lambda>n. 1 / 2) (\<lambda>n. False)) = 3
   \<and> settled (createRetryablePromise
        (\<lambda>n. Inl (TRPCFetcherError ''connection'' None ''fetch failed'') :: error_value + unit)
        (\<lambda>n. False) (\<lambda>n. 1 / 2) (\<lambda>n. False))
       = Inl (TRPCFetcherError ''connection'' None ''fetch failed'')"
proof -
  have p: "selectRetryProfile (TRPCFetcherError ''connection'' None ''fetch failed'')
             = Some RETRY_PROFILES_network"
    by (simp add: selectRetryProfile_def)
  then have h: "\<forall>n. \<exists>e. (\<lambda>n. Inl (TRPCFetcherError ''connection'' None ''fetch failed'')) n
                 = (Inl e :: error_value + unit)
             \<and> selectRetryProfile e = Some RETRY_PROFILES_network"
    by simp
  have q: "\<forall>n. \<not> (\<lambda>n. False) n \<and> \<not> (\<lambda>n. False) n" by simp
  from createRetryablePromise_exhausts_budget [OF h q, of "\<lambda>n. 1 / 2"] h show ?thesis
    by (simp add: RETRY_PROFILES_network_def)
qed

text \<open>
  Claim C4. When the attempts before the \<open>k\<close>-th each ended in a further attempt, and the
  \<open>k\<close>-th attempt fails with \<open>e\<close> while the cancellation signal is set, or fails with a
  retryable \<open>e\<close> and the signal fires during the backoff wait that follows, then the
  promise rejects with \<open>e\<close> itself and the operation has been invoked \<open>k\<close> times in all:
  it is not invoked again.
\<close>

theorem createRetryablePromise_cancelled:
  assumes reach: "\<forall>m. 1 \<le> m \<and> m < k \<longrightarrow> retryContinues operationFn aborted delayAborted m"
      and k: "1 \<le> k"
      and fails: "operationFn k = Inl e"
      and cancel: "aborted k \<or>
                   (\<exists>rp. selectRetryProfile e = Some rp \<and> k < maxAttempts rp \<and> delayAborted k)"
  shows "settled (createRetryablePromise operationFn aborted random delayAborted) = Inl e
       \<and> invocations (createRetryablePromise operationFn aborted random delayAborted) = k"
proof -
  have "settled (retryLoop operationFn aborted random delayAborted k) = Inl e
      \<and> invocations (retryLoop operationFn aborted random delayAborted k) = 1"
  proof (cases "aborted k")
    case True
    with fails show ?thesis by (simp add: retryLoop_aborted)
  next
    case False
    with cancel obtain rp where "selectRetryProfile e = Some rp" "k < maxAttempts rp" "delayAborted k"
      by blast
    with fails False show ?thesis by (simp add: retryLoop_wait_aborted)
  qed
  with retryLoop_skip [OF reach k, of random] k show ?thesis
    by (simp add: createRetryablePromise_def)
qed


theorem createRetryablePromise_cancelled_witness:
  "settled (createRetryablePromise
        (\<lambda>n. Inl (TRPCFetcherError ''http'' (Some 503) ''Service Unavailable'')
              :: error_value + unit)
        (\<lambda>n. False) (\<lambda>n. 1 / 2) (\<lambda>n. n = 2))
     = Inl (TRPCFetcherError ''http'' (Some 503) ''Service Unavailable'')
   \<and> invocations (createRetryablePromise
        (\<lambda>n. Inl (TRPCFetcherError ''http'' (Some 503) ''Service Unavailable'')
              :: error_value + unit)
        (\<lambda>n. False) (\<lambda>n. 1 / 2) (\<lambda>n. n = 2)) = 2"
proof -
  let ?e = "TRPCFetcherError ''http'' (Some 503) ''Service Unavailable''"
  let ?op = "\<lambda>n::nat. Inl ?e :: error_value + unit"
  have p: "selectRetryProfile ?e = Some RETRY_PROFILES_server"
    by (simp add: selectRetryProfile_def)
  have reach: "\<forall>m. 1 \<le> m \<and> m < 2 \<longrightarrow> retryContinues ?op (\<lambda>n. False) (\<lambda>n. n = 2) m"
    by (simp add: retryContinues_def p RETRY_PROFILES_server_def)
  have k: "(1::nat) \<le> 2" by simp
  have f: "?op 2 = Inl ?e" by simp
  have c: "(\<lambda>n. False) (2::nat) \<or>
           (\<exists>rp. selectRetryProfile ?e = Some rp \<and> 2 < maxAttempts rp \<and> (\<lambda>n::nat. n = 2) 2)"
    by (simp add: p RETRY_PROFILES_server_def)
  from createRetryablePromise_cancelled [OF reach k f c, of "\<lambda>n. 1 / 2"] show ?thesis .
qed

subsection \<open>The backoff delay\<close>

lemma Math_round_ge: "of_int k \<le> x \<Longrightarrow> of_int k \<le> Math_round x"
  unfolding Math_round_def by (simp add: le_floor_iff)

lemma Math_round_le: "x \<le> of_int k \<Longrightarrow> Math_round x \<le> of_int k"
  unfolding Math_round_def by (simp add: floor_le_iff)

lemma backoffDelay_bounds_uncapped:
  assumes jf: "0 < jitterFactor rp"
      and nocap: "baseDelayMs rp * 2 ^ (n - 1) \<le> maxDelayMs rp"
      and lo: "of_int a = baseDelayMs rp * 2 ^ (n - 1) * (1 - jitterFactor rp)"
      and hi: "of_int b = baseDelayMs rp * 2 ^ (n - 1) * (1 + jitterFactor rp)"
      and a: "1 \<le> a" and base: "0 \<le> baseDelayMs rp" and r: "0 \<le> r" "r \<le> 1"
  shows "baseDelayMs rp * 2 ^ (n - 1) * (1 - jitterFactor rp) \<le> backoffDelay rp n r
       \<and> backoffDelay rp n r
           \<le> min (maxDelayMs rp) (baseDelayMs rp * 2 ^ (n - 1)) * (1 + jitterFactor rp)
       \<and> 1 \<le> backoffDelay rp n r"
proof -
  define delay where "delay = baseDelayMs rp * 2 ^ (n - 1)"
  define jr where "jr = delay * jitterFactor rp"
  define x where "x = delay + (r * 2 - 1) * jr"
  have m: "min (baseDelayMs rp * 2 ^ (n - 1)) (maxDelayMs rp) = delay"
    "min (maxDelayMs rp) (baseDelayMs rp * 2 ^ (n - 1)) = delay"
    using nocap by (simp_all add: delay_def)
  have bd: "backoffDelay rp n r = max 1 (Math_round x)"
    unfolding backoffDelay_def Let_def m x_def jr_def using jf by simp
  have jr0: "0 \<le> jr" using jf base by (simp add: jr_def delay_def)
  have u: "- 1 \<le> r * 2 - 1" "r * 2 - 1 \<le> 1" using r by simp_all
  have "(- 1) * jr \<le> (r * 2 - 1) * jr" using u(1) jr0 by (rule mult_right_mono)
  moreover have "(r * 2 - 1) * jr \<le> 1 * jr" using u(2) jr0 by (rule mult_right_mono)
  ultimately have x: "delay * (1 - jitterFactor rp) \<le> x" "x \<le> delay * (1 + jitterFactor rp)"
    by (simp_all add: x_def jr_def algebra_simps)
  have 1: "of_int a \<le> Math_round x" using x(1) lo by (intro Math_round_ge) (simp add: delay_def)
  have 2: "Math_round x \<le> of_int b" using x(2) hi by (intro Math_round_le) (simp add: delay_def)
  have 3: "(1::real) \<le> of_int a" using a by simp
  from 1 2 3 have "of_int a \<le> max 1 (Math_round x)" "max 1 (Math_round x) \<le> of_int b"
    "1 \<le> max 1 (Math_round x)" by simp_all
  then have "delay * (1 - jitterFactor rp) \<le> max 1 (Math_round x)"
    "max 1 (Math_round x) \<le> delay * (1 + jitterFactor rp)" "1 \<le> max 1 (Math_round x)"
    using lo hi by (simp_all add: delay_def)
  then show ?thesis
    unfolding bd m by (simp add: delay_def)
qed

lemma backoffDelay_bounds:
  assumes rp: "rp = RETRY_PROFILES_network \<or> rp = RETRY_PROFILES_server"
      and n: "1 \<le> n" "n < maxAttempts rp"
      and r: "0 \<le> r" "r \<le> 1"
  shows "baseDelayMs rp * 2 ^ (n - 1) * (1 - jitterFactor rp) \<le> backoffDelay rp n r
       \<and> backoffDelay rp n r
           \<le> min (maxDelayMs rp) (baseDelayMs rp * 2 ^ (n - 1)) * (1 + jitterFactor rp)
       \<and> 1 \<le> backoffDelay rp n r"
proof -
  from rp n have
    "(rp = RETRY_PROFILES_network \<and> (n = 1 \<or> n = 2))
     \<or> (rp = RETRY_PROFILES_server \<and> (n = 1 \<or> n = 2 \<or> n = 3))"
    by (auto simp: RETRY_PROFILES_network_def RETRY_PROFILES_server_def)
  then consider
      (n1) "rp = RETRY_PROFILES_network" "n = 1"
    | (n2) "rp = RETRY_PROFILES_network" "n = 2"
    | (s1) "rp = RETRY_PROFILES_server" "n = 1"
    | (s2) "rp = RETRY_PROFILES_server" "n = 2"
    | (s3) "rp = RETRY_PROFILES_server" "n = 3"
    by blast
  then show ?thesis
  proof cases
    case n1
    show ?thesis
      by (rule backoffDelay_bounds_uncapped [where a = 375 and b = 625])
         (simp_all add: n1 r RETRY_PROFILES_network_def)
  next
    case n2
    show ?thesis
      by (rule backoffDelay_bounds_uncapped [where a = 750 and b = 1250])
         (simp_all add: n2 r RETRY_PROFILES_network_def)
  next
    case s1
    show ?thesis
      by (rule backoffDelay_bounds_uncapped [where a = 500 and b = 1500])
         (simp_all add: s1 r RETRY_PROFILES_server_def)
  next
    case s2
    show ?thesis
      by (rule backoffDelay_bounds_uncapped [where a = 1000 and b = 3000])
         (simp_all add: s2 r RETRY_PROFILES_server_def)
  next
    case s3
    show ?thesis
      by (rule backoffDelay_bounds_uncapped [where a = 2000 and b = 6000])
         (simp_all add: s3 r RETRY_PROFILES_server_def)
  qed
qed

lemma retryLoop_stops:
  assumes "\<not> retryContinues operationFn aborted delayAborted n"
  shows "retries (retryLoop operationFn aborted random delayAborted n) = []
       \<or> (\<exists>e rp. operationFn n = Inl e \<and> selectRetryProfile e = Some rp \<and> n < maxAttempts rp
            \<and> retries (retryLoop operationFn aborted random delayAborted n)
                = [retryInfo e rp (n + 1) (backoffDelay rp n (random n))])"
  using assms
  by (subst (1 2) retryLoop.simps)
     (auto simp: retryContinues_def Let_def split: sum.splits option.splits)

lemma retryLoop_retries_nth:
  "i < length (retries (retryLoop operationFn aborted random delayAborted n)) \<Longrightarrow>
   \<exists>e rp. operationFn (n + i) = Inl e \<and> selectRetryProfile e = Some rp
      \<and> n + i < maxAttempts rp
      \<and> retries (retryLoop operationFn aborted random delayAborted n) ! i
          = retryInfo e rp (n + i + 1) (backoffDelay rp (n + i) (random (n + i)))"
proof (induction i arbitrary: n)
  case 0
  show ?case
  proof (cases "retryContinues operationFn aborted delayAborted n")
    case True
    then obtain e rp where
      "operationFn n = Inl e" "\<not> aborted n" "selectRetryProfile e = Some rp"
      "n < maxAttempts rp" "\<not> delayAborted n"
      by (auto simp: retryContinues_def split: sum.splits option.splits)
    then show ?thesis by (simp add: retryLoop_retry)
  next
    case False
    from retryLoop_stops [OF False, of random] 0 show ?thesis by auto
  qed
next
  case (Suc i)
  show ?case
  proof (cases "retryContinues operationFn aborted delayAborted n")
    case True
    then obtain e rp where
      "operationFn n = Inl e" "\<not> aborted n" "selectRetryProfile e = Some rp"
      "n < maxAttempts rp" "\<not> delayAborted n"
      by (auto simp: retryContinues_def split: sum.splits option.splits)
    then have unfold: "retries (retryLoop operationFn aborted random delayAborted n)
        = retryInfo e rp (n + 1) (backoffDelay rp n (random n))
          # retries (retryLoop operationFn aborted random delayAborted (n + 1))"
      by (simp add: retryLoop_retry)
    with Suc.prems have "i < length (retries (retryLoop operationFn aborted random delayAborted (n + 1)))"
      by simp
    from Suc.IH [OF this] unfold show ?thesis by simp
  next
    case False
    from retryLoop_stops [OF False, of random] Suc.prems show ?thesis by auto
  qed
qed


text \<open>
  Claim C5. Whatever the operation and the signal do, as long as the jitter source stays
  in its range (\<^verbatim>\<open>Math.random()\<close> in \<open>[0, 1]\<close>, that is a jitter in \<open>[-1, 1]\<close>), every
  retry announced by \<^verbatim>\<open>createRetryablePromise\<close> is for an upcoming attempt \<open>n \<ge> 2\<close>
  under the profile \<open>rp\<close> of the error that caused it, and its delay \<open>d\<close> satisfies
  \<open>base * 2 ^ (n - 2) * (1 - jitter) \<le> d \<le> min max (base * 2 ^ (n - 2)) * (1 + jitter)\<close>
  and \<open>d \<ge> 1\<close>.
\<close>

theorem createRetryablePromise_delay_bounds:
  assumes rnd: "\<forall>n. 0 \<le> random n \<and> random n \<le> 1"
      and i: "i < length (retries (createRetryablePromise operationFn aborted random delayAborted))"
  shows "\<exists>e rp n d. operationFn (i + 1) = Inl e \<and> selectRetryProfile e = Some rp
      \<and> attempt (retries (createRetryablePromise operationFn aborted random delayAborted) ! i) = n
      \<and> delayMs (retries (createRetryablePromise operationFn aborted random delayAborted) ! i) = d
      \<and> n = i + 2 \<and> 2 \<le> n
      \<and> baseDelayMs rp * 2 ^ (n - 2) * (1 - jitterFactor rp) \<le> d
      \<and> d \<le> min (maxDelayMs rp) (baseDelayMs rp * 2 ^ (n - 2)) * (1 + jitterFactor rp)
      \<and> 1 \<le> d"
proof -
  from i have "i < length (retries (retryLoop operationFn aborted random delayAborted 1))"
    by (simp add: createRetryablePromise_def)
  from retryLoop_retries_nth [OF this] obtain e rp where
    e: "operationFn (1 + i) = Inl e" "selectRetryProfile e = Some rp" "1 + i < maxAttempts rp"
    and nth: "retries (retryLoop operationFn aborted random delayAborted 1) ! i
          = retryInfo e rp (1 + i + 1) (backoffDelay rp (1 + i) (random (1 + i)))"
    by blast
  from selectRetryProfile_range [OF e(2)] have
    "rp = RETRY_PROFILES_network \<or> rp = RETRY_PROFILES_server" .
  from backoffDelay_bounds [OF this _ e(3), of "random (1 + i)"] rnd
  have b: "baseDelayMs rp * 2 ^ i * (1 - jitterFactor rp) \<le> backoffDelay rp (1 + i) (random (1 + i))
       \<and> backoffDelay rp (1 + i) (random (1 + i))
           \<le> min (maxDelayMs rp) (baseDelayMs rp * 2 ^ i) * (1 + jitterFactor rp)
       \<and> 1 \<le> backoffDelay rp (1 + i) (random (1 + i))"
    by simp
  show ?thesis
    using e nth b by (simp add: createRetryablePromise_def retryInfo_def add.commute)
qed


theorem createRetryablePromise_delay_bounds_witness:
  "(\<forall>n. 0 \<le> (\<lambda>n::nat. 1 / 3 :: real) n \<and> (\<lambda>n::nat. 1 / 3 :: real) n \<le> 1)
   \<and> length (retries (createRetryablePromise
        (\<lambda>n. Inl (TRPCFetcherError ''connection'' None ''fetch failed'') :: error_value + unit)
        (\<lambda>n. False) (\<lambda>n. 1 / 3) (\<lambda>n. False))) = 2
   \<and> delayMs (retries (createRetryablePromise
        (\<lambda>n. Inl (TRPCFetcherError ''connection'' None ''fetch failed'') :: error_value + unit)
        (\<lambda>n. False) (\<lambda>n. 1 / 3) (\<lambda>n. False)) ! 0) = 458
   \<and> (\<exists>e rp n d. selectRetryProfile e = Some rp
        \<and> delayMs (retries (createRetryablePromise
             (\<lambda>n. Inl (TRPCFetcherError ''connection'' None ''fetch failed'')
                   :: error_value + unit)
             (\<lambda>n. False) (\<lambda>n. 1 / 3) (\<lambda>n. False)) ! 0) = d
        \<and> n = 2
        \<and> baseDelayMs rp * 2 ^ (n - 2) * (1 - jitterFactor rp) \<le> d
        \<and> d \<le> min (maxDelayMs rp) (baseDelayMs rp * 2 ^ (n - 2)) * (1 + jitterFactor rp))"
proof -
  let ?run = "createRetryablePromise
        (\<lambda>n. Inl (TRPCFetcherError ''connection'' None ''fetch failed'') :: error_value + unit)
        (\<lambda>n. False) (\<lambda>n. 1 / 3) (\<lambda>n. False)"
  have r: "\<forall>n. 0 \<le> (\<lambda>n::nat. 1 / 3 :: real) n \<and> (\<lambda>n::nat. 1 / 3 :: real) n \<le> 1" by simp
  have len: "length (retries ?run) = 2" by code_simp
  have d0: "delayMs (retries ?run ! 0) = 458" by code_simp
  have i: "0 < length (retries ?run)" using len by simp
  from createRetryablePromise_delay_bounds [OF r i] have
    "\<exists>e rp n d. selectRetryProfile e = Some rp
        \<and> delayMs (retries ?run ! 0) = d \<and> n = 2
        \<and> baseDelayMs rp * 2 ^ (n - 2) * (1 - jitterFactor rp) \<le> d
        \<and> d \<le> min (maxDelayMs rp) (baseDelayMs rp * 2 ^ (n - 2)) * (1 + jitterFactor rp)"
    by fastforce
  with r len d0 show ?thesis by blast
qed

section \<open>Properties of the parameter overlay and the model configuration\<close>

lemma spread_Some [simp]: "spread (Some m) = m" by (simp add: spread_def)
lemma spread_None [simp]: "spread None = Map.empty" by (simp add: spread_def)

lemma getProp_layers:
  "getProp (getAllModelParameterValues ini usr) p =
     (case spread usr p of Some v \<Rightarrow> v
      | None \<Rightarrow> (case spread ini p of Some v \<Rightarrow> v
         | None \<Rightarrow> getProp LLMImplicitParamersRuntimeFallback p))"
  by (simp add: getProp_def getAllModelParameterValues_def map_add_def split: option.splits)

lemma llmOptionsWithOverride_apply:
  "llmOptionsWithOverride opts ov p =
     (case (if p = ''llmRef'' then None else spread ov p) of Some v \<Rightarrow> Some v | None \<Rightarrow> opts p)"
  by (cases ov) (simp_all add: llmOptionsWithOverride_def map_add_def split: option.splits)

lemma llmRef_of_override:
  "getProp (llmOptionsWithOverride opts ov) ''llmRef'' = getProp opts ''llmRef''"
  by (simp add: getProp_def llmOptionsWithOverride_apply)

lemma create_ok_iff:
  "isl (aixCreateModelFromLLMOptions js wg ifs opts ov dbg) \<longleftrightarrow> \<not> truthy (getProp opts ''llmRef'')"
  by (simp add: aixCreateModelFromLLMOptions_def Let_def llmRef_of_override)

lemma create_id:
  "aixCreateModelFromLLMOptions js wg ifs opts ov dbg = Inr m \<Longrightarrow> id_model m = getProp opts ''llmRef''"
  by (auto simp: aixCreateModelFromLLMOptions_def Let_def llmRef_of_override split: if_splits)

lemma create_temperature:
  "aixCreateModelFromLLMOptions js wg ifs opts ov dbg = Inr m \<Longrightarrow>
   temperature m = (if LLM_IF_HOTFIX_NoTemperature \<in> set ifs then Some VNull
                    else whenDefined (getProp (llmOptionsWithOverride opts ov) ''llmTemperature''))"
  by (auto simp: aixCreateModelFromLLMOptions_def Let_def split: if_splits)


lemma getProp_llmRef_layers:
  "getProp (getAllModelParameterValues ini usr) ''llmRef'' = layeredRef ini usr"
proof -
  have "getProp LLMImplicitParamersRuntimeFallback ''llmRef'' = VUndefined"
    by (simp add: LLMImplicitParamersRuntimeFallback_def getProp_def)
  then show ?thesis
    unfolding getProp_layers layeredRef_def by (simp split: option.splits)
qed


lemma getProp_resolved:
  "getProp (llmOptionsWithOverride (getAllModelParameterValues ini usr) ov) p
     = resolvedParameter ini usr ov p"
  unfolding getProp_def llmOptionsWithOverride_apply resolvedParameter_def
    getAllModelParameterValues_def
  by (simp add: map_add_def split: option.splits)

text \<open>
  Claim C7, as stated, fails for the model reference: with \<^verbatim>\<open>llmRef\<close> defined by the
  model's initial parameters and by the per-call override, the highest layer that
  defines it is the override, yet the configuration's id is the one of the initial
  parameters.
\<close>

theorem overlay_precedence_counterexample:
  "highestLayer
     [spread (Some [''llmRef'' \<mapsto> VStr ''model-b'']), spread None,
      spread (Some [''llmRef'' \<mapsto> VStr ''model-a'']), LLMImplicitParamersRuntimeFallback]
     ''llmRef'' = VStr ''model-b''
   \<and> (\<exists>m. aixCreateModelFromLLMOptions (\<lambda>m. []) None []
            (getAllModelParameterValues (Some [''llmRef'' \<mapsto> VStr ''model-a'']) None)
            (Some [''llmRef'' \<mapsto> VStr ''model-b'']) ''llm-1'' = Inr m
        \<and> id_model m = VStr ''model-a'' \<and> id_model m \<noteq> VStr ''model-b'')"
  by (simp add: aixCreateModelFromLLMOptions_def Let_def llmOptionsWithOverride_def
      getAllModelParameterValues_def LLMImplicitParamersRuntimeFallback_def getProp_def)

text \<open>
  Claim C7, amended. The configuration that \<^verbatim>\<open>aixCreateModelFromLLMOptions\<close> builds
  from the options of \<^verbatim>\<open>getAllModelParameterValues\<close> and the per-call override is
  built, field by field, from the value that each parameter has in the highest layer
  that defines it: per-call override, user overrides, initial parameters, implicit
  fallback; except that \<^verbatim>\<open>llmRef\<close> is taken from the layers below the per-call
  override. With fallback temperature 0.5, initial 0.7, user override 0.9 and per-call
  override 1.1, the configuration gets 1.1; without the per-call override 0.9; without
  the user override as well 0.7; and with no initial temperature either 0.5.
\<close>

theorem overlay_precedence:
  "aixCreateModelFromLLMOptions js wg ifs (getAllModelParameterValues ini usr) ov dbg =
     (if \<not> truthy (resolvedParameter ini usr ov ''llmRef'') then
        Inl (new_Error (''AIX: Error in configuration for model '' @ dbg
               @ '' (missing ref, temperature): '' @ js (getAllModelParameterValues ini usr)))
      else Inr
        \<lparr>id_model = resolvedParameter ini usr ov ''llmRef'',
         acceptsOutputs =
           (if LLM_IF_Outputs_NoText \<notin> set ifs then [''text''] else [])
           @ (if LLM_IF_Outputs_Audio \<in> set ifs then [''audio''] else [])
           @ (if LLM_IF_Outputs_Image \<in> set ifs then [''image''] else []),
         temperature =
           (if LLM_IF_HOTFIX_NoTemperature \<in> set ifs then Some VNull
            else whenDefined (resolvedParameter ini usr ov ''llmTemperature'')),
         maxTokens = whenTruthy (resolvedParameter ini usr ov ''llmResponseTokens''),
         topP = whenDefined (resolvedParameter ini usr ov ''llmTopP''),
         forceNoStream = whenTruthy (resolvedParameter ini usr ov ''llmForceNoStream''),
         vndAntThinkingBudget =
           whenDefined (resolvedParameter ini usr ov ''llmVndAntThinkingBudget''),
         vndGeminiShowThoughts =
           whenTruthy (resolvedParameter ini usr ov ''llmVndGeminiShowThoughts''),
         vndGeminiThinkingBudget =
           whenDefined (resolvedParameter ini usr ov ''llmVndGeminiThinkingBudget''),
         vndOaiResponsesAPI = (if LLM_IF_OAI_Responses \<in> set ifs then Some True else None),
         vndOaiReasoningEffort =
           whenTruthy (resolvedParameter ini usr ov ''llmVndOaiReasoningEffort''),
         vndOaiRestoreMarkdown =
           whenTruthy (resolvedParameter ini usr ov ''llmVndOaiRestoreMarkdown''),
         vndOaiWebSearchContext =
           whenTruthy (resolvedParameter ini usr ov ''llmVndOaiWebSearchContext''),
         vndPerplexityDateFilter =
           whenTruthy (resolvedParameter ini usr ov ''llmVndPerplexityDateFilter''),
         vndPerplexitySearchMode =
           whenTruthy (resolvedParameter ini usr ov ''llmVndPerplexitySearchMode''),
         userGeolocation =
           (if truthy (resolvedParameter ini usr ov ''llmVndOaiWebSearchGeolocation'') then
              (case wg of
                 Some g \<Rightarrow>
                   Some \<lparr>geoCity = nonEmpty (city g), geoCountry = nonEmpty (country g),
                         geoRegion = nonEmpty (region g), geoTimezone = timezone g\<rparr>
               | None \<Rightarrow> None)
            else None),
         vndXaiSearchMode = whenTruthy (resolvedParameter ini usr ov ''llmVndXaiSearchMode''),
         vndXaiSearchSources =
           whenTruthy (resolvedParameter ini usr ov ''llmVndXaiSearchSources''),
         vndXaiSearchDateFilter =
           whenTruthy (resolvedParameter ini usr ov ''llmVndXaiSearchDateFilter'')\<rparr>)
   \<and> highestLayer [LLMImplicitParamersRuntimeFallback] ''llmTemperature'' = VNum 0.5
   \<and> configTemperature (aixCreateModelFromLLMOptions js wg []
          (getAllModelParameterValues
             (Some [''llmRef'' \<mapsto> VStr ''model-ref'', ''llmTemperature'' \<mapsto> VNum 0.7])
             (Some [''llmTemperature'' \<mapsto> VNum 0.9]))
          (Some [''llmTemperature'' \<mapsto> VNum 1.1]) dbg) = Some (VNum 1.1)
   \<and> configTemperature (aixCreateModelFromLLMOptions js wg []
          (getAllModelParameterValues
             (Some [''llmRef'' \<mapsto> VStr ''model-ref'', ''llmTemperature'' \<mapsto> VNum 0.7])
             (Some [''llmTemperature'' \<mapsto> VNum 0.9]))
          None dbg) = Some (VNum 0.9)
   \<and> configTemperature (aixCreateModelFromLLMOptions js wg []
          (getAllModelParameterValues
             (Some [''llmRef'' \<mapsto> VStr ''model-ref'', ''llmTemperature'' \<mapsto> VNum 0.7])
             None)
          None dbg) = Some (VNum 0.7)
   \<and> configTemperature (aixCreateModelFromLLMOptions js wg []
          (getAllModelParameterValues (Some [''llmRef'' \<mapsto> VStr ''model-ref'']) None)
          None dbg) = Some (VNum 0.5)"
proof -
  have general: "aixCreateModelFromLLMOptions js wg ifs (getAllModelParameterValues ini usr) ov dbg =
     (if \<not> truthy (resolvedParameter ini usr ov ''llmRef'') then
        Inl (new_Error (''AIX: Error in configuration for model '' @ dbg
               @ '' (missing ref, temperature): '' @ js (getAllModelParameterValues ini usr)))
      else Inr
        \<lparr>id_model = resolvedParameter ini usr ov ''llmRef'',
         acceptsOutputs =
           (if LLM_IF_Outputs_NoText \<notin> set ifs then [''text''] else [])
           @ (if LLM_IF_Outputs_Audio \<in> set ifs then [''audio''] else [])
           @ (if LLM_IF_Outputs_Image \<in> set ifs then [''image''] else []),
         temperature =
           (if LLM_IF_HOTFIX_NoTemperature \<in> set ifs then Some VNull
            else whenDefined (resolvedParameter ini usr ov ''llmTemperature'')),
         maxTokens = whenTruthy (resolvedParameter ini usr ov ''llmResponseTokens''),
         topP = whenDefined (resolvedParameter ini usr ov ''llmTopP''),
         forceNoStream = whenTruthy (resolvedParameter ini usr ov ''llmForceNoStream''),
         vndAntThinkingBudget =
           whenDefined (resolvedParameter ini usr ov ''llmVndAntThinkingBudget''),
         vndGeminiShowThoughts =
           whenTruthy (resolvedParameter ini usr ov ''llmVndGeminiShowThoughts''),
         vndGeminiThinkingBudget =
           whenDefined (resolvedParameter ini usr ov ''llmVndGeminiThinkingBudget''),
         vndOaiResponsesAPI = (if LLM_IF_OAI_Responses \<in> set ifs then Some True else None),
         vndOaiReasoningEffort =
           whenTruthy (resolvedParameter ini usr ov ''llmVndOaiReasoningEffort''),
         vndOaiRestoreMarkdown =
           whenTruthy (resolvedParameter ini usr ov ''llmVndOaiRestoreMarkdown''),
         vndOaiWebSearchContext =
           whenTruthy (resolvedParameter ini usr ov ''llmVndOaiWebSearchContext''),
         vndPerplexityDateFilter =
           whenTruthy (resolvedParameter ini usr ov ''llmVndPerplexityDateFilter''),
         vndPerplexitySearchMode =
           whenTruthy (resolvedParameter ini usr ov ''llmVndPerplexitySearchMode''),
         userGeolocation =
           (if truthy (resolvedParameter ini usr ov ''llmVndOaiWebSearchGeolocation'') then
              (case wg of
                 Some g \<Rightarrow>
                   Some \<lparr>geoCity = nonEmpty (city g), geoCountry = nonEmpty (country g),
                         geoRegion = nonEmpty (region g), geoTimezone = timezone g\<rparr>
               | None \<Rightarrow> None)
            else None),
         vndXaiSearchMode = whenTruthy (resolvedParameter ini usr ov ''llmVndXaiSearchMode''),
         vndXaiSearchSources =
           whenTruthy (resolvedParameter ini usr ov ''llmVndXaiSearchSources''),
         vndXaiSearchDateFilter =
           whenTruthy (resolvedParameter ini usr ov ''llmVndXaiSearchDateFilter'')\<rparr>)"
    unfolding aixCreateModelFromLLMOptions_def Let_def getProp_resolved by simp
  have fallback: "highestLayer [LLMImplicitParamersRuntimeFallback] ''llmTemperature'' = VNum 0.5"
    by (simp add: LLMImplicitParamersRuntimeFallback_def)
  note ev = configTemperature_def aixCreateModelFromLLMOptions_def Let_def
      llmOptionsWithOverride_def getAllModelParameterValues_def
      LLMImplicitParamersRuntimeFallback_def getProp_def whenDefined_def
  have all4: "configTemperature (aixCreateModelFromLLMOptions js wg []
          (getAllModelParameterValues
             (Some [''llmRef'' \<mapsto> VStr ''model-ref'', ''llmTemperature'' \<mapsto> VNum 0.7])
             (Some [''llmTemperature'' \<mapsto> VNum 0.9]))
          (Some [''llmTemperature'' \<mapsto> VNum 1.1]) dbg) = Some (VNum 1.1)"
    by (simp add: ev)
  have top3: "configTemperature (aixCreateModelFromLLMOptions js wg []
          (getAllModelParameterValues
             (Some [''llmRef'' \<mapsto> VStr ''model-ref'', ''llmTemperature'' \<mapsto> VNum 0.7])
             (Some [''llmTemperature'' \<mapsto> VNum 0.9]))
          None dbg) = Some (VNum 0.9)"
    by (simp add: ev)
  have top2: "configTemperature (aixCreateModelFromLLMOptions js wg []
          (getAllModelParameterValues
             (Some [''llmRef'' \<mapsto> VStr ''model-ref'', ''llmTemperature'' \<mapsto> VNum 0.7])
             None)
          None dbg) = Some (VNum 0.7)"
    by (simp add: ev)
  have top1: "configTemperature (aixCreateModelFromLLMOptions js wg []
          (getAllModelParameterValues (Some [''llmRef'' \<mapsto> VStr ''model-ref'']) None)
          None dbg) = Some (VNum 0.5)"
    by (simp add: ev)
  from general fallback all4 top3 top2 top1 show ?thesis by (intro conjI)
qed

theorem overlay_precedence_witness:
  "\<exists>m. aixCreateModelFromLLMOptions (\<lambda>m. []) None []
          (getAllModelParameterValues
             (Some [''llmRef'' \<mapsto> VStr ''model-ref'', ''llmTopP'' \<mapsto> VNum 0.8])
             (Some [''llmTopP'' \<mapsto> VNum 0.9, ''llmResponseTokens'' \<mapsto> VNum 1024]))
          (Some [''llmTopP'' \<mapsto> VNum 1]) ''llm-1'' = Inr m
     \<and> id_model m = VStr ''model-ref''
     \<and> topP m = Some (VNum 1)
     \<and> maxTokens m = Some (VNum 1024)
     \<and> temperature m = Some (VNum 0.5)"
proof -
  have r: "resolvedParameter
             (Some [''llmRef'' \<mapsto> VStr ''model-ref'', ''llmTopP'' \<mapsto> VNum 0.8])
             (Some [''llmTopP'' \<mapsto> VNum 0.9, ''llmResponseTokens'' \<mapsto> VNum 1024])
             (Some [''llmTopP'' \<mapsto> VNum 1]) ''llmRef'' = VStr ''model-ref''"
    "resolvedParameter
             (Some [''llmRef'' \<mapsto> VStr ''model-ref'', ''llmTopP'' \<mapsto> VNum 0.8])
             (Some [''llmTopP'' \<mapsto> VNum 0.9, ''llmResponseTokens'' \<mapsto> VNum 1024])
             (Some [''llmTopP'' \<mapsto> VNum 1]) ''llmTopP'' = VNum 1"
    "resolvedParameter
             (Some [''llmRef'' \<mapsto> VStr ''model-ref'', ''llmTopP'' \<mapsto> VNum 0.8])
             (Some [''llmTopP'' \<mapsto> VNum 0.9, ''llmResponseTokens'' \<mapsto> VNum 1024])
             (Some [''llmTopP'' \<mapsto> VNum 1]) ''llmResponseTokens'' = VNum 1024"
    "resolvedParameter
             (Some [''llmRef'' \<mapsto> VStr ''model-ref'', ''llmTopP'' \<mapsto> VNum 0.8])
             (Some [''llmTopP'' \<mapsto> VNum 0.9, ''llmResponseTokens'' \<mapsto> VNum 1024])
             (Some [''llmTopP'' \<mapsto> VNum 1]) ''llmTemperature'' = VNum 0.5"
    by (simp_all add: resolvedParameter_def LLMImplicitParamersRuntimeFallback_def)
  from overlay_precedence [of "\<lambda>m. []" None "[]"
         "Some [''llmRef'' \<mapsto> VStr ''model-ref'', ''llmTopP'' \<mapsto> VNum 0.8]"
         "Some [''llmTopP'' \<mapsto> VNum 0.9, ''llmResponseTokens'' \<mapsto> VNum 1024]"
         "Some [''llmTopP'' \<mapsto> VNum 1]" "''llm-1''"]
  have "aixCreateModelFromLLMOptions (\<lambda>m. []) None []
          (getAllModelParameterValues
             (Some [''llmRef'' \<mapsto> VStr ''model-ref'', ''llmTopP'' \<mapsto> VNum 0.8])
             (Some [''llmTopP'' \<mapsto> VNum 0.9, ''llmResponseTokens'' \<mapsto> VNum 1024]))
          (Some [''llmTopP'' \<mapsto> VNum 1]) ''llm-1''
        = Inr \<lparr>id_model = VStr ''model-ref'', acceptsOutputs = [''text''],
               temperature = Some (VNum 0.5), maxTokens = Some (VNum 1024),
               topP = Some (VNum 1), forceNoStream = None, vndAntThinkingBudget = None,
               vndGeminiShowThoughts = None, vndGeminiThinkingBudget = None,
               vndOaiResponsesAPI = None, vndOaiReasoningEffort = None,
               vndOaiRestoreMarkdown = None, vndOaiWebSearchContext = None,
               vndPerplexityDateFilter = None, vndPerplexitySearchMode = None,
               userGeolocation = None, vndXaiSearchMode = None, vndXaiSearchSources = None,
               vndXaiSearchDateFilter = None\<rparr>"
    unfolding r
    by (simp add: resolvedParameter_def LLMImplicitParamersRuntimeFallback_def
        whenDefined_def whenTruthy_def)
  then show ?thesis by simp
qed

text \<open>
  Claim C8. A per-call override that holds an \<^verbatim>\<open>llmRef\<close> gives the same outcome as the
  same override without it, and whenever a configuration is returned its id is the
  model reference resolved from the initial and user layers.
\<close>

theorem override_llmRef_ignored:
  "aixCreateModelFromLLMOptions js wg ifs opts (Some (ov(''llmRef'' \<mapsto> v))) dbg
     = aixCreateModelFromLLMOptions js wg ifs opts (Some (ov(''llmRef'' := None))) dbg
   \<and> (\<forall>m. aixCreateModelFromLLMOptions js wg ifs (getAllModelParameterValues ini usr) ov0 dbg
            = Inr m \<longrightarrow> id_model m = layeredRef ini usr)"
proof -
  have "llmOptionsWithOverride opts (Some (ov(''llmRef'' \<mapsto> v)))
      = llmOptionsWithOverride opts (Some (ov(''llmRef'' := None)))"
    by (simp add: llmOptionsWithOverride_def)
  then have "aixCreateModelFromLLMOptions js wg ifs opts (Some (ov(''llmRef'' \<mapsto> v))) dbg
     = aixCreateModelFromLLMOptions js wg ifs opts (Some (ov(''llmRef'' := None))) dbg"
    by (simp add: aixCreateModelFromLLMOptions_def)
  then show ?thesis
    by (auto dest: create_id simp: getProp_llmRef_layers)
qed

theorem override_llmRef_ignored_witness:
  "(\<exists>m. aixCreateModelFromLLMOptions (\<lambda>m. []) None []
            (getAllModelParameterValues (Some [''llmRef'' \<mapsto> VStr ''model-a'']) None)
            (Some [''llmRef'' \<mapsto> VStr ''model-b'']) ''llm-1'' = Inr m
        \<and> id_model m = VStr ''model-a'')"
proof -
  have "\<not> isl (aixCreateModelFromLLMOptions (\<lambda>m. []) None []
            (getAllModelParameterValues (Some [''llmRef'' \<mapsto> VStr ''model-a'']) None)
            (Some [''llmRef'' \<mapsto> VStr ''model-b'']) ''llm-1'')"
    by (simp add: create_ok_iff getProp_llmRef_layers layeredRef_def)
  then obtain m where m: "aixCreateModelFromLLMOptions (\<lambda>m. []) None []
            (getAllModelParameterValues (Some [''llmRef'' \<mapsto> VStr ''model-a'']) None)
            (Some [''llmRef'' \<mapsto> VStr ''model-b'']) ''llm-1'' = Inr m"
    by (cases "aixCreateModelFromLLMOptions (\<lambda>m. []) None []
            (getAllModelParameterValues (Some [''llmRef'' \<mapsto> VStr ''model-a'']) None)
            (Some [''llmRef'' \<mapsto> VStr ''model-b'']) ''llm-1''") auto
  with override_llmRef_ignored [of "\<lambda>m. []" None "[]" Map.empty Map.empty VNull "''llm-1''"
         "Some [''llmRef'' \<mapsto> VStr ''model-a'']" None "Some [''llmRef'' \<mapsto> VStr ''model-b'']"]
  have "id_model m = layeredRef (Some [''llmRef'' \<mapsto> VStr ''model-a'']) None" by blast
  with m show ?thesis by (simp add: layeredRef_def)
qed


text \<open>
  Claim C10, as stated, fails: a per-call override that defines \<^verbatim>\<open>llmRef\<close> does not
  prevent the error, since its \<^verbatim>\<open>llmRef\<close> is deleted before the merge, and neither does
  a layer that defines \<^verbatim>\<open>llmRef\<close> as the empty string, which is falsy.
\<close>

theorem missing_llmRef_counterexample:
  "''llmRef'' \<in> dom [''llmRef'' \<mapsto> VStr ''model-b'']
   \<and> isl (aixCreateModelFromLLMOptions (\<lambda>m. []) None []
            (getAllModelParameterValues (Some Map.empty) None)
            (Some [''llmRef'' \<mapsto> VStr ''model-b'']) ''llm-1'')
   \<and> ''llmRef'' \<in> dom [''llmRef'' \<mapsto> VStr []]
   \<and> isl (aixCreateModelFromLLMOptions (\<lambda>m. []) None []
            (getAllModelParameterValues (Some [''llmRef'' \<mapsto> VStr []]) None)
            None ''llm-1'')"
  by (simp add: create_ok_iff getProp_llmRef_layers layeredRef_def)


text \<open>
  Claim C10, amended. \<^verbatim>\<open>aixCreateModelFromLLMOptions\<close> throws its configuration error
  exactly when the \<^verbatim>\<open>llmRef\<close> resolved from the user overrides and the model's initial
  parameters is missing or falsy, whatever the per-call override holds; and the
  message-level call then ends with that error before any notification, rate-limit hook
  or transport call.
\<close>

theorem missing_llmRef_throws:
  "(isl (aixCreateModelFromLLMOptions js wg ifs (getAllModelParameterValues ini usr) ov dbg)
      \<longleftrightarrow> \<not> truthy (layeredRef ini usr))
   \<and> (\<not> truthy (layeredRef ini usr) \<longrightarrow>
        aixCreateModelFromLLMOptions js wg ifs (getAllModelParameterValues ini usr) ov dbg
          = Inl (new_Error (''AIX: Error in configuration for model '' @ dbg
                  @ '' (missing ref, temperature): ''
                  @ js (getAllModelParameterValues ini usr))))
   \<and> (findLLMOrThrow llms llmId = Inr llm \<and> findServiceAccessOrThrow co (sId llm) = Inr hook
        \<and> \<not> truthy (layeredRef (Some (initialParameters llm)) (userParameters llm)) \<longrightarrow>
        events (aixChatGenerateContent_DMessage co llms llmId sig throttle ov cb) = []
        \<and> isl (result (aixChatGenerateContent_DMessage co llms llmId sig throttle ov cb)))"
proof (intro conjI impI)
  show "isl (aixCreateModelFromLLMOptions js wg ifs (getAllModelParameterValues ini usr) ov dbg)
      \<longleftrightarrow> \<not> truthy (layeredRef ini usr)"
    by (simp add: create_ok_iff getProp_llmRef_layers)
next
  assume "\<not> truthy (layeredRef ini usr)"
  then show "aixCreateModelFromLLMOptions js wg ifs (getAllModelParameterValues ini usr) ov dbg
          = Inl (new_Error (''AIX: Error in configuration for model '' @ dbg
                  @ '' (missing ref, temperature): ''
                  @ js (getAllModelParameterValues ini usr)))"
    by (simp add: aixCreateModelFromLLMOptions_def Let_def llmRef_of_override getProp_llmRef_layers)
next
  assume a: "findLLMOrThrow llms llmId = Inr llm \<and> findServiceAccessOrThrow co (sId llm) = Inr hook
        \<and> \<not> truthy (layeredRef (Some (initialParameters llm)) (userParameters llm))"
  then have "isl (aixCreateModelFromLLMOptions (JSON_stringify co) (webGeolocationCached co)
       (interfaces llm)
       (getAllModelParameterValues (Some (initialParameters llm)) (userParameters llm)) ov llmId)"
    by (simp add: create_ok_iff getProp_llmRef_layers)
  then obtain e where "aixCreateModelFromLLMOptions (JSON_stringify co) (webGeolocationCached co)
       (interfaces llm)
       (getAllModelParameterValues (Some (initialParameters llm)) (userParameters llm)) ov llmId
       = Inl e"
    by (auto simp: isl_def)
  with a show "events (aixChatGenerateContent_DMessage co llms llmId sig throttle ov cb) = []"
    and "isl (result (aixChatGenerateContent_DMessage co llms llmId sig throttle ov cb))"
    by (simp_all add: aixChatGenerateContent_DMessage_def Let_def)
qed


theorem missing_llmRef_throws_witness:
  "events (aixChatGenerateContent_DMessage
       \<lparr>JSON_stringify = (\<lambda>m. []), webGeolocationCached = None,
        presentErrorToHumans = (\<lambda>e b c. []), metricsChatGenerateLgToMd = (\<lambda>m::unit. m),
        metricsComputeChatGenerateCostsMd = (\<lambda>m. None :: unit option),
        assignCosts = (\<lambda>m c. m), findServiceAccessOrThrow = (\<lambda>s. Inr NoHook),
        transport = Stream [] None, tick = (\<lambda>k. True)\<rparr>
       [\<lparr>llm_id = ''llm-1'', vId = ''vendor'', sId = ''service'', interfaces = [],
         initialParameters = [''llmTemperature'' \<mapsto> VNum 0.7], userParameters = None\<rparr>]
       ''llm-1'' None 0 (Some [''llmRef'' \<mapsto> VStr ''model-b'']) True) = []
   \<and> isl (result (aixChatGenerateContent_DMessage
       \<lparr>JSON_stringify = (\<lambda>m. []), webGeolocationCached = None,
        presentErrorToHumans = (\<lambda>e b c. []), metricsChatGenerateLgToMd = (\<lambda>m::unit. m),
        metricsComputeChatGenerateCostsMd = (\<lambda>m. None :: unit option),
        assignCosts = (\<lambda>m c. m), findServiceAccessOrThrow = (\<lambda>s. Inr NoHook),
        transport = Stream [] None, tick = (\<lambda>k. True)\<rparr>
       [\<lparr>llm_id = ''llm-1'', vId = ''vendor'', sId = ''service'', interfaces = [],
         initialParameters = [''llmTemperature'' \<mapsto> VNum 0.7], userParameters = None\<rparr>]
       ''llm-1'' None 0 (Some [''llmRef'' \<mapsto> VStr ''model-b'']) True))"
proof -
  let ?llm = "\<lparr>llm_id = ''llm-1'', vId = ''vendor'', sId = ''service'', interfaces = [],
         initialParameters = [''llmTemperature'' \<mapsto> VNum 0.7], userParameters = None\<rparr>"
  let ?co = "\<lparr>JSON_stringify = (\<lambda>m. []), webGeolocationCached = None,
        presentErrorToHumans = (\<lambda>e b c. []), metricsChatGenerateLgToMd = (\<lambda>m::unit. m),
        metricsComputeChatGenerateCostsMd = (\<lambda>m. None :: unit option),
        assignCosts = (\<lambda>m c. m), findServiceAccessOrThrow = (\<lambda>s. Inr NoHook),
        transport = Stream [] None, tick = (\<lambda>k. True)\<rparr>"
  have h: "findLLMOrThrow [?llm] ''llm-1'' = Inr ?llm
        \<and> findServiceAccessOrThrow ?co (sId ?llm) = Inr NoHook
        \<and> \<not> truthy (layeredRef (Some (initialParameters ?llm)) (userParameters ?llm))"
    by (simp add: findLLMOrThrow_def layeredRef_def spread_def)
  from missing_llmRef_throws [where llms = "[?llm]" and llmId = "''llm-1''" and llm = ?llm
         and co = ?co and hook = NoHook and sig = None and throttle = 0
         and ov = "Some [''llmRef'' \<mapsto> VStr ''model-b'']" and cb = True] h
  show ?thesis by blast
qed

section \<open>Properties of the generation orchestrator\<close>

subsection \<open>Tier 0\<close>

lemma reassemble_snd:
  "snd (reassemble send k ps r) = fold enqueueWireParticle ps r"
  by (induction ps arbitrary: k r) (simp_all add: Let_def split_beta)

lemma returned_LL:
  assumes cb: "\<forall>cb acc. onUpdate = Some cb \<longrightarrow> cb acc = None"
  shows "returned (aixChatGenerateContent_LL pe wire aborted thr clock onUpdate) =
     Inr (accumulator (finalizeAccumulator
       (case wireFailure wire of
          None \<Rightarrow> reassembledBefore wire
        | Some e \<Rightarrow> onStreamFailure pe aborted e (reassembledBefore wire))))"
proof -
  show ?thesis
  proof (cases onUpdate)
    case None
    then show ?thesis
      by (cases wire)
         (auto simp: aixChatGenerateContent_LL_def Let_def wireFailure_def wireDelivered_def
            reassembledBefore_def reassemble_snd split_beta split: option.splits)
  next
    case (Some f)
    with cb have "\<And>acc. f acc = None" by simp
    with Some show ?thesis
      by (cases wire)
         (auto simp: aixChatGenerateContent_LL_def Let_def wireFailure_def wireDelivered_def
            reassembledBefore_def reassemble_snd split_beta split: option.splits)
  qed
qed

lemma finalize_fragments [simp]:
  "fragments (accumulator (finalizeAccumulator r)) = fragments (accumulator r)"
  "genTokenStopReason (accumulator (finalizeAccumulator r)) = genTokenStopReason (accumulator r)"
  by (simp_all add: finalizeAccumulator_def)


text \<open>
  What the low-level call does with a failure of the transport, at \<^verbatim>\<open>mutate\<close> or in
  the middle of the stream, when the caller's callback (if there is one) returns normally
  from its last call: it resolves with the final accumulator. If the abort signal is set
  or the error is an abort error, the reassembler is told \<^verbatim>\<open>setClientAborted\<close>: the
  fragments stay as they were and the stop reason is the client abort. Otherwise it is
  told \<^verbatim>\<open>setClientExcepted\<close> with a readable message, which is appended as one error
  fragment. In both cases the fragments accumulated before the failure are a prefix of
  the final ones.
\<close>

lemma transport_failure_becomes_content:
  assumes fail: "wireFailure wire = Some e"
      and cb: "\<forall>cb acc. onUpdate = Some cb \<longrightarrow> cb acc = None"
  shows "\<exists>acc. returned (aixChatGenerateContent_LL pe wire aborted thr clock onUpdate) = Inr acc
     \<and> acc = accumulator (finalizeAccumulator (onStreamFailure pe aborted e (reassembledBefore wire)))
     \<and> (aborted \<or> isErrorAbort e \<longrightarrow>
          onStreamFailure pe aborted e (reassembledBefore wire)
            = setClientAborted (reassembledBefore wire)
          \<and> fragments acc = fragments (accumulator (reassembledBefore wire))
          \<and> genTokenStopReason acc = Some ClientAbort)
     \<and> (\<not> (aborted \<or> isErrorAbort e) \<longrightarrow>
          (\<exists>errorText.
             onStreamFailure pe aborted e (reassembledBefore wire)
               = setClientExcepted
                   (''An unexpected error occurred: '' @ errorText @ '' Please retry.'')
                   (reassembledBefore wire)
             \<and> fragments acc = fragments (accumulator (reassembledBefore wire))
                 @ [createErrorContentFragment
                      (''An unexpected error occurred: '' @ errorText @ '' Please retry.'')]))
     \<and> prefix (fragments (accumulator (reassembledBefore wire))) (fragments acc)"
proof -
  let ?r = "reassembledBefore wire"
  let ?acc = "accumulator (finalizeAccumulator (onStreamFailure pe aborted e ?r))"
  have ret: "returned (aixChatGenerateContent_LL pe wire aborted thr clock onUpdate) = Inr ?acc"
    using returned_LL [OF cb, of pe wire aborted thr clock] fail by simp
  have ab: "aborted \<or> isErrorAbort e \<Longrightarrow>
          onStreamFailure pe aborted e ?r = setClientAborted ?r
          \<and> fragments ?acc = fragments (accumulator ?r)
          \<and> genTokenStopReason ?acc = Some ClientAbort"
    by (simp add: onStreamFailure_def setClientAborted_def)
  have ex: "\<not> (aborted \<or> isErrorAbort e) \<Longrightarrow>
          (\<exists>errorText.
             onStreamFailure pe aborted e ?r
               = setClientExcepted
                   (''An unexpected error occurred: '' @ errorText @ '' Please retry.'') ?r
             \<and> fragments ?acc = fragments (accumulator ?r)
                 @ [createErrorContentFragment
                      (''An unexpected error occurred: '' @ errorText @ '' Please retry.'')])"
    unfolding onStreamFailure_def Let_def
    by (simp add: setClientExcepted_def Let_def del: append.simps) blast
  have pre: "prefix (fragments (accumulator ?r)) (fragments ?acc)"
  proof (cases "aborted \<or> isErrorAbort e")
    case True
    with ab show ?thesis by (simp add: setClientAborted_def)
  next
    case False
    with ex show ?thesis by auto
  qed
  from ret ab ex pre show ?thesis by blast
qed



subsection \<open>Tier 2\<close>

lemma llToText_fragments_tool:
  "list_ex isToolInvocation fs \<Longrightarrow> \<exists>msg. llToText_fragments fs t = Inl (new_Error msg)"
proof (induction fs arbitrary: t)
  case Nil
  then show ?case by simp
next
  case (Cons f fs)
  obtain k p where f: "f = Fragment k p" by (cases f)
  show ?case
  proof (cases p)
    case (ToolInvocationPart tid invo)
    with f show ?thesis by (simp add: new_Error_def)
  qed (use f Cons in auto)
qed

lemma llToText_fragments_no_tool:
  "\<not> list_ex isToolInvocation fs \<Longrightarrow> \<exists>t'. llToText_fragments fs t = Inr t'"
proof (induction fs arbitrary: t)
  case Nil
  then show ?case by simp
next
  case (Cons f fs)
  obtain k p where f: "f = Fragment k p" by (cases f)
  show ?case
    by (cases p) (use f Cons in auto)
qed

lemma llToText_fragments_text:
  "\<not> list_ex isToolInvocation fs \<Longrightarrow> \<not> list_ex isErrorFragment fs \<Longrightarrow>
   llToText_fragments fs t = Inr (t @ concatenatedText fs)"
proof (induction fs arbitrary: t)
  case Nil
  then show ?case by (simp add: concatenatedText_def)
next
  case (Cons f fs)
  obtain k p where f: "f = Fragment k p" by (cases f)
  show ?case
    by (cases p) (use f Cons in \<open>auto simp: concatenatedText_def\<close>)
qed

lemma errorTexts_none: "\<not> list_ex isErrorFragment fs \<Longrightarrow> errorTexts fs = []"
proof (induction fs)
  case Nil
  then show ?case by (simp add: errorTexts_def)
next
  case (Cons f fs)
  obtain k p where f: "f = Fragment k p" by (cases f)
  from Cons show ?case
    by (cases p) (use f in \<open>auto simp: errorTexts_def\<close>)
qed


text \<open>
  The outcomes of the facade once the low-level call has returned: an Error when the
  result holds a tool invocation; otherwise an AbortError when the abort signal is set;
  otherwise the Error \<^verbatim>\<open>AIX: Empty text response.\<close> when the result has no fragment at
  all (and no text was streamed before); otherwise an Error carrying the error texts
  joined by newlines when that joined text is not empty; and when the result has
  fragments, none of them an error or a tool invocation, the concatenated text of the
  text fragments.
\<close>

lemma aixChatGenerateText_Simple_outcomes:
  "(list_ex isToolInvocation (fragments ll) \<longrightarrow>
      (\<exists>msg. aixChatGenerateText_Simple lgToMd costsOf assign ll state aborted
                = Inl (new_Error msg)))
   \<and> (\<not> list_ex isToolInvocation (fragments ll) \<and> aborted \<longrightarrow>
        aixChatGenerateText_Simple lgToMd costsOf assign ll state aborted
          = Inl (new_DOMException ''Stopped.'' ''AbortError''))
   \<and> (\<not> aborted \<and> fragments ll = [] \<and> textOf state = None \<longrightarrow>
        aixChatGenerateText_Simple lgToMd costsOf assign ll state aborted
          = Inl (new_Error ''AIX: Empty text response.''))
   \<and> (\<not> list_ex isToolInvocation (fragments ll) \<and> \<not> aborted \<and> fragments ll \<noteq> []
        \<and> joinWith newline (errorTexts (fragments ll)) \<noteq> [] \<longrightarrow>
        aixChatGenerateText_Simple lgToMd costsOf assign ll state aborted
          = Inl (new_Error (''AIX: Error in response: ''
                   @ joinWith newline (errorTexts (fragments ll)))))
   \<and> (\<not> list_ex isToolInvocation (fragments ll) \<and> \<not> aborted \<and> fragments ll \<noteq> []
        \<and> \<not> list_ex isErrorFragment (fragments ll) \<longrightarrow>
        aixChatGenerateText_Simple lgToMd costsOf assign ll state aborted
          = Inr (concatenatedText (fragments ll)))"
proof (intro conjI impI)
  assume "list_ex isToolInvocation (fragments ll)"
  then have ne: "fragments ll \<noteq> []" by auto
  from llToText_fragments_tool [OF \<open>list_ex isToolInvocation (fragments ll)\<close>, of "[]"]
  obtain msg where "llToText_fragments (fragments ll) [] = Inl (new_Error msg)" by blast
  with ne have "aixChatGenerateText_Simple lgToMd costsOf assign ll state aborted
                = Inl (new_Error msg)"
    by (simp add: aixChatGenerateText_Simple_def llToText_def Let_def)
  then show "\<exists>msg. aixChatGenerateText_Simple lgToMd costsOf assign ll state aborted
                = Inl (new_Error msg)" by blast
next
  assume a: "\<not> list_ex isToolInvocation (fragments ll) \<and> aborted"
  then obtain t where "llToText_fragments (fragments ll) [] = Inr t"
    using llToText_fragments_no_tool [of "fragments ll" "[]"] by blast
  with a show "aixChatGenerateText_Simple lgToMd costsOf assign ll state aborted
          = Inl (new_DOMException ''Stopped.'' ''AbortError'')"
    by (simp add: aixChatGenerateText_Simple_def llToText_def Let_def)
next
  assume "\<not> aborted \<and> fragments ll = [] \<and> textOf state = None"
  then show "aixChatGenerateText_Simple lgToMd costsOf assign ll state aborted
          = Inl (new_Error ''AIX: Empty text response.'')"
    by (simp add: aixChatGenerateText_Simple_def llToText_def Let_def)
next
  assume a: "\<not> list_ex isToolInvocation (fragments ll) \<and> \<not> aborted \<and> fragments ll \<noteq> []
        \<and> joinWith newline (errorTexts (fragments ll)) \<noteq> []"
  then obtain t where "llToText_fragments (fragments ll) [] = Inr t"
    using llToText_fragments_no_tool [of "fragments ll" "[]"] by blast
  with a show "aixChatGenerateText_Simple lgToMd costsOf assign ll state aborted
          = Inl (new_Error (''AIX: Error in response: ''
                   @ joinWith newline (errorTexts (fragments ll))))"
    by (simp add: aixChatGenerateText_Simple_def llToText_def Let_def)
next
  assume a: "\<not> list_ex isToolInvocation (fragments ll) \<and> \<not> aborted \<and> fragments ll \<noteq> []
        \<and> \<not> list_ex isErrorFragment (fragments ll)"
  then have t: "llToText_fragments (fragments ll) [] = Inr (concatenatedText (fragments ll))"
    using llToText_fragments_text [of "fragments ll" "[]"] by simp
  from a have "errorTexts (fragments ll) = []" by (simp add: errorTexts_none)
  with a t show "aixChatGenerateText_Simple lgToMd costsOf assign ll state aborted
          = Inr (concatenatedText (fragments ll))"
    by (simp add: aixChatGenerateText_Simple_def llToText_def Let_def)
qed

text \<open>
  Claim C6 says that the facade throws \<^verbatim>\<open>AIX: Empty text response.\<close> when no text at
  all was produced, and an Error with the error texts when error fragments are present,
  as the comments in the code say (throw if there was no text generated; throw if there
  are error fragments). The code does neither at these two results: one whose only
  fragment is an error fragment with an empty message, and one whose only fragment is a
  void fragment without text. Both resolve with the empty string.
\<close>

theorem aixChatGenerateText_Simple_resolves_without_text:
  "aixChatGenerateText_Simple (\<lambda>m::unit. m) (\<lambda>m. None :: unit option) (\<lambda>m c. m)
      \<lparr>fragments = [Fragment FtContent (ErrorPart [])], genMetricsLg = None,
       genModelName = None, genTokenStopReason = None\<rparr>
      \<lparr>textOf = None,
       generator = \<lparr>mgt = ''aix'', name = ''llm-1'', aix_vId = ''vendor'', aix_mId = ''llm-1'',
                    metrics = None, tokenStopReason = None\<rparr>,
       isDone = False\<rparr> False = Inr []
   \<and> aixChatGenerateText_Simple (\<lambda>m::unit. m) (\<lambda>m. None :: unit option) (\<lambda>m c. m)
      \<lparr>fragments = [Fragment FtVoid MaPart], genMetricsLg = None,
       genModelName = None, genTokenStopReason = None\<rparr>
      \<lparr>textOf = None,
       generator = \<lparr>mgt = ''aix'', name = ''llm-1'', aix_vId = ''vendor'', aix_mId = ''llm-1'',
                    metrics = None, tokenStopReason = None\<rparr>,
       isDone = False\<rparr> False = Inr []"
  by (simp add: aixChatGenerateText_Simple_def llToText_def Let_def errorTexts_def
      isContentFragment_def copyGenerator_def updateGeneratorCostsInPlace_def)

subsection \<open>Tier 1\<close>

lemma forwardUpdates_not_done:
  "\<forall>ev \<in> set (fst (forwardUpdates lgToMd cb us d)). \<not> isDoneUpdate ev"
  by (induction lgToMd cb us d rule: forwardUpdates.induct) (auto simp: Let_def split_beta)

lemma returned_LL_quiet:
  "\<exists>acc. returned (aixChatGenerateContent_LL pe wire aborted thr clock (Some (\<lambda>acc. None)))
     = Inr acc"
proof -
  have "\<forall>cb acc. Some (\<lambda>acc. None) = Some cb \<longrightarrow> cb acc = (None :: js_error option)" by auto
  from returned_LL [OF this] show ?thesis by blast
qed


text \<open>
  Claim C9, as stated, fails: a call whose rate-limit hook rejects has sent the initial
  notification and throws without any notification with \<^verbatim>\<open>isDone = true\<close>.
\<close>

theorem dmessage_notifications_counterexample:
  "events (aixChatGenerateContent_DMessage
       \<lparr>JSON_stringify = (\<lambda>m. []), webGeolocationCached = None,
        presentErrorToHumans = (\<lambda>e b c. []), metricsChatGenerateLgToMd = (\<lambda>m::unit. m),
        metricsComputeChatGenerateCostsMd = (\<lambda>m. None :: unit option),
        assignCosts = (\<lambda>m c. m),
        findServiceAccessOrThrow = (\<lambda>s. Inr (HookRejects (new_Error ''rate limited''))),
        transport = Stream [TextDelta ''Hello''] None, tick = (\<lambda>k. True)\<rparr>
       [\<lparr>llm_id = ''llm-1'', vId = ''vendor'', sId = ''service'', interfaces = [],
         initialParameters = [''llmRef'' \<mapsto> VStr ''model-a''], userParameters = None\<rparr>]
       ''llm-1'' None 0 None True)
     = [StreamingUpdate
          \<lparr>msgFragments = [],
           msgGenerator = \<lparr>mgt = ''aix'', name = ''llm-1'', aix_vId = ''vendor'',
                           aix_mId = ''llm-1'', metrics = None, tokenStopReason = None\<rparr>,
           pendingIncomplete = True\<rparr> False,
        RateLimitChatGenerate]
   \<and> result (aixChatGenerateContent_DMessage
       \<lparr>JSON_stringify = (\<lambda>m. []), webGeolocationCached = None,
        presentErrorToHumans = (\<lambda>e b c. []), metricsChatGenerateLgToMd = (\<lambda>m::unit. m),
        metricsComputeChatGenerateCostsMd = (\<lambda>m. None :: unit option),
        assignCosts = (\<lambda>m c. m),
        findServiceAccessOrThrow = (\<lambda>s. Inr (HookRejects (new_Error ''rate limited''))),
        transport = Stream [TextDelta ''Hello''] None, tick = (\<lambda>k. True)\<rparr>
       [\<lparr>llm_id = ''llm-1'', vId = ''vendor'', sId = ''service'', interfaces = [],
         initialParameters = [''llmRef'' \<mapsto> VStr ''model-a''], userParameters = None\<rparr>]
       ''llm-1'' None 0 None True)
     = Inl (new_Error ''rate limited'')"
  by (simp add: aixChatGenerateContent_DMessage_def findLLMOrThrow_def Let_def
      aixCreateModelFromLLMOptions_def llmOptionsWithOverride_def
      getAllModelParameterValues_def LLMImplicitParamersRuntimeFallback_def getProp_def
      spread_def)


text \<open>
  Claim C9, amended. With a streaming callback, a call that returns has sent: first the
  initial notification (no fragments, still pending), before the rate-limit hook and the
  transport call; then only notifications with \<^verbatim>\<open>isDone = false\<close>; and last, after the
  costs went to the store, exactly one notification with \<^verbatim>\<open>isDone = true\<close>, carrying
  the returned message. A call that throws sends no notification with
  \<^verbatim>\<open>isDone = true\<close>.
\<close>

theorem dmessage_notifications:
  fixes co :: "('lg, 'md, 'c) collaborators"
  shows
  "(\<forall>d. result (aixChatGenerateContent_DMessage co llms llmId sig thr ov True) = Inr d \<longrightarrow>
      (\<exists>d0 mid model.
          events (aixChatGenerateContent_DMessage co llms llmId sig thr ov True)
            = StreamingUpdate d0 False # mid @ [StreamingUpdate d True]
        \<and> msgFragments d0 = [] \<and> pendingIncomplete d0 \<and> \<not> pendingIncomplete d
        \<and> TransportCall model \<in> set mid
        \<and> (\<forall>ev \<in> set mid. \<not> isDoneUpdate ev)))
   \<and> (isl (result (aixChatGenerateContent_DMessage co llms llmId sig thr ov True)) \<longrightarrow>
        (\<forall>ev \<in> set (events (aixChatGenerateContent_DMessage co llms llmId sig thr ov True)).
            \<not> isDoneUpdate ev))"
proof (cases "findLLMOrThrow llms llmId")
  case (Inl e)
  then show ?thesis by (simp add: aixChatGenerateContent_DMessage_def)
next
  case llm: (Inr llm)
  show ?thesis
  proof (cases "findServiceAccessOrThrow co (sId llm)")
    case (Inl e)
    with llm show ?thesis by (simp add: aixChatGenerateContent_DMessage_def)
  next
    case hook: (Inr hook)
    show ?thesis
    proof (cases "aixCreateModelFromLLMOptions (JSON_stringify co) (webGeolocationCached co)
             (interfaces llm)
             (getAllModelParameterValues (Some (initialParameters llm)) (userParameters llm))
             ov llmId")
      case (Inl e)
      with llm hook show ?thesis by (simp add: aixChatGenerateContent_DMessage_def Let_def)
    next
      case model: (Inr aixModel)
      show ?thesis
      proof (cases "\<exists>e. hook = HookRejects e")
        case True
        then obtain e where "hook = HookRejects e" by blast
        with llm hook model show ?thesis
          by (simp add: aixChatGenerateContent_DMessage_def Let_def)
      next
        case False
        define aborted where "aborted = (case sig of None \<Rightarrow> False | Some b \<Rightarrow> b)"
        define ll where "ll = aixChatGenerateContent_LL (presentErrorToHumans co) (transport co)
                 aborted thr (tick co) (Some (\<lambda>acc. None))"
        define d0 :: "'md AixChatGenerateContent_DMessage" where "d0 =
            \<lparr>msgFragments = [],
             msgGenerator = \<lparr>mgt = ''aix'', name = llmId, aix_vId = vId llm,
                             aix_mId = llm_id llm, metrics = None, tokenStopReason = None\<rparr>,
             pendingIncomplete = True\<rparr>"
        define fw :: "('md, 'c) event list \<times> 'md AixChatGenerateContent_DMessage"
          where "fw = forwardUpdates (metricsChatGenerateLgToMd co) True (updates ll) d0"
        obtain acc where acc: "returned ll = Inr acc"
          unfolding ll_def using returned_LL_quiet by blast
        define d2 where "d2 = llToDMessage (metricsChatGenerateLgToMd co) acc
                 ((snd fw)\<lparr>pendingIncomplete := False\<rparr>)"
        define gc where "gc = updateGeneratorCostsInPlace (metricsComputeChatGenerateCostsMd co)
                         (assignCosts co) (msgGenerator d2)"
        define d3 where "d3 = d2\<lparr>msgGenerator := fst gc\<rparr>"
        define mid where "mid = (if hook = NoHook then [] else [RateLimitChatGenerate])
            @ [TransportCall aixModel] @ fst fw
            @ (case snd gc of None \<Rightarrow> [] | Some c \<Rightarrow> [MetricsStoreAddChatGenerate c])"
        from False have hk: "hook = NoHook \<or> hook = HookResolves" by (cases hook) auto
        have run: "aixChatGenerateContent_DMessage co llms llmId sig thr ov True
            = \<lparr>events = StreamingUpdate d0 False # mid @ [StreamingUpdate d3 True],
               result = Inr d3\<rparr>"
          using hk llm hook model acc
          unfolding aixChatGenerateContent_DMessage_def
          by (auto simp: Let_def split_beta aborted_def [symmetric] ll_def [symmetric]
                d0_def [symmetric] fw_def [symmetric] d2_def [symmetric] gc_def [symmetric]
                d3_def [symmetric] mid_def)
        have p3: "\<not> pendingIncomplete d3"
          by (simp add: d3_def d2_def llToDMessage_def Let_def)
        have nd: "\<forall>ev \<in> set mid. \<not> isDoneUpdate ev"
          using forwardUpdates_not_done [of "metricsChatGenerateLgToMd co" True "updates ll" d0]
          by (auto simp: mid_def fw_def split: option.splits)
        have tc: "TransportCall aixModel \<in> set mid" by (simp add: mid_def)
        have d0p: "msgFragments d0 = [] \<and> pendingIncomplete d0" by (simp add: d0_def)
        show ?thesis
          unfolding run using p3 nd tc d0p by auto
      qed
    qed
  qed
qed

theorem dmessage_notifications_witness:
  "\<exists>d d0 mid model.
     result (aixChatGenerateContent_DMessage
       \<lparr>JSON_stringify = (\<lambda>m. []), webGeolocationCached = None,
        presentErrorToHumans = (\<lambda>e b c. []), metricsChatGenerateLgToMd = (\<lambda>m::unit. m),
        metricsComputeChatGenerateCostsMd = (\<lambda>m. None :: unit option),
        assignCosts = (\<lambda>m c. m), findServiceAccessOrThrow = (\<lambda>s. Inr HookResolves),
        transport = Stream [TextDelta ''Hello'', TextDelta '' world'', StreamDone] None,
        tick = (\<lambda>k. True)\<rparr>
       [\<lparr>llm_id = ''llm-1'', vId = ''vendor'', sId = ''service'', interfaces = [],
         initialParameters = [''llmRef'' \<mapsto> VStr ''model-a''], userParameters = None\<rparr>]
       ''llm-1'' None 0 None True) = Inr d
   \<and> events (aixChatGenerateContent_DMessage
       \<lparr>JSON_stringify = (\<lambda>m. []), webGeolocationCached = None,
        presentErrorToHumans = (\<lambda>e b c. []), metricsChatGenerateLgToMd = (\<lambda>m::unit. m),
        metricsComputeChatGenerateCostsMd = (\<lambda>m. None :: unit option),
        assignCosts = (\<lambda>m c. m), findServiceAccessOrThrow = (\<lambda>s. Inr HookResolves),
        transport = Stream [TextDelta ''Hello'', TextDelta '' world'', StreamDone] None,
        tick = (\<lambda>k. True)\<rparr>
       [\<lparr>llm_id = ''llm-1'', vId = ''vendor'', sId = ''service'', interfaces = [],
         initialParameters = [''llmRef'' \<mapsto> VStr ''model-a''], userParameters = None\<rparr>]
       ''llm-1'' None 0 None True)
       = StreamingUpdate d0 False # mid @ [StreamingUpdate d True]
   \<and> msgFragments d = [Fragment FtContent (TextPart ''Hello world'')]
   \<and> TransportCall model \<in> set mid
   \<and> (\<forall>ev \<in> set mid. \<not> isDoneUpdate ev)"
proof -
  let ?run = "aixChatGenerateContent_DMessage
       \<lparr>JSON_stringify = (\<lambda>m. []), webGeolocationCached = None,
        presentErrorToHumans = (\<lambda>e b c. []), metricsChatGenerateLgToMd = (\<lambda>m::unit. m),
        metricsComputeChatGenerateCostsMd = (\<lambda>m. None :: unit option),
        assignCosts = (\<lambda>m c. m), findServiceAccessOrThrow = (\<lambda>s. Inr HookResolves),
        transport = Stream [TextDelta ''Hello'', TextDelta '' world'', StreamDone] None,
        tick = (\<lambda>k. True)\<rparr>
       [\<lparr>llm_id = ''llm-1'', vId = ''vendor'', sId = ''service'', interfaces = [],
         initialParameters = [''llmRef'' \<mapsto> VStr ''model-a''], userParameters = None\<rparr>]
       ''llm-1'' None 0 None True"
  have r: "\<exists>d. result ?run = Inr d
             \<and> msgFragments d = [Fragment FtContent (TextPart ''Hello world'')]"
    by (simp add: aixChatGenerateContent_DMessage_def findLLMOrThrow_def Let_def
      aixCreateModelFromLLMOptions_def llmOptionsWithOverride_def
      getAllModelParameterValues_def LLMImplicitParamersRuntimeFallback_def getProp_def
      spread_def aixChatGenerateContent_LL_def newContentReassembler_def withDecimator_def
      finalizeAccumulator_def llToDMessage_def copyGenerator_def
      updateGeneratorCostsInPlace_def split_beta)
  then obtain d where d: "result ?run = Inr d"
    "msgFragments d = [Fragment FtContent (TextPart ''Hello world'')]" by blast
  from dmessage_notifications [where co = "\<lparr>JSON_stringify = (\<lambda>m. []), webGeolocationCached = None,
        presentErrorToHumans = (\<lambda>e b c. []), metricsChatGenerateLgToMd = (\<lambda>m::unit. m),
        metricsComputeChatGenerateCostsMd = (\<lambda>m. None :: unit option),
        assignCosts = (\<lambda>m c. m), findServiceAccessOrThrow = (\<lambda>s. Inr HookResolves),
        transport = Stream [TextDelta ''Hello'', TextDelta '' world'', StreamDone] None,
        tick = (\<lambda>k. True)\<rparr>" and llms = "[\<lparr>llm_id = ''llm-1'', vId = ''vendor'', sId = ''service'', interfaces = [],
         initialParameters = [''llmRef'' \<mapsto> VStr ''model-a''], userParameters = None\<rparr>]"
        and llmId = "''llm-1''" and sig = None and thr = 0 and ov = None] d
  show ?thesis by blast
qed


end
